theory Spec2Isabelle
  imports Main "HOL-Library.Sublist"
begin

section \<open>JavaScript values\<close>

text \<open>
  Payloads that travel over the event bus and the socket are JavaScript values. Numbers
  are modelled as integers (block heights, exit codes and nonces are integers far below
  \<open>2^53\<close>), objects as association lists in insertion order.
\<close>

datatype jsval =
    JUndefined
  | JNull
  | JBool bool
  | JNum int
  | JStr string
  | JArr "jsval list"
  | JObj "(string \<times> jsval) list"

text \<open>JavaScript's truthiness, as used by \<open>!x\<close>, \<open>if (x)\<close> and \<open>x || y\<close>.\<close>

fun truthy :: "jsval \<Rightarrow> bool" where
  "truthy JUndefined = False"
| "truthy JNull = False"
| "truthy (JBool b) = b"
| "truthy (JNum n) = (n \<noteq> 0)"
| "truthy (JStr s) = (s \<noteq> [])"
| "truthy (JArr xs) = True"
| "truthy (JObj kvs) = True"

text \<open>\<open>a || b\<close> on values.\<close>

definition js_or :: "jsval \<Rightarrow> jsval \<Rightarrow> jsval" where
  "js_or a b = (if truthy a then a else b)"

text \<open>
  The \<open>opts.x || default\<close> idiom of the constructors on typed options: an absent
  option (\<open>undefined\<close>) and a falsy one (\<open>0\<close>, \<open>''\<close>, \<open>false\<close>) both give the default.
\<close>

definition or_int :: "int option \<Rightarrow> int \<Rightarrow> int" where
  "or_int v d = (case v of None \<Rightarrow> d | Some n \<Rightarrow> if n \<noteq> 0 then n else d)"

definition or_bool :: "bool option \<Rightarrow> bool \<Rightarrow> bool" where
  "or_bool v d = (case v of None \<Rightarrow> d | Some b \<Rightarrow> if b then b else d)"

definition or_str :: "string option \<Rightarrow> string \<Rightarrow> string" where
  "or_str v d = (case v of None \<Rightarrow> d | Some x \<Rightarrow> if x \<noteq> [] then x else d)"

text \<open>
  \<open>opts.x || false\<close> for a string option: the field holds a non-empty string or
  \<open>false\<close>, written \<open>None\<close>.
\<close>

definition or_false :: "string option \<Rightarrow> string option" where
  "or_false v = (case v of None \<Rightarrow> None | Some x \<Rightarrow> if x \<noteq> [] then Some x else None)"

text \<open>Truthiness of a field that holds a string or \<open>false\<close>.\<close>

definition str_truthy :: "string option \<Rightarrow> bool" where
  "str_truthy v = (case v of None \<Rightarrow> False | Some x \<Rightarrow> x \<noteq> [])"

text \<open>Positional argument \<open>i\<close> of a listener; a missing argument is \<open>undefined\<close>.\<close>

definition arg :: "nat \<Rightarrow> jsval list \<Rightarrow> jsval" where
  "arg i args = (if i < length args then args ! i else JUndefined)"

section \<open>Strings\<close>

text \<open>\<open>String(n)\<close> for an integer, as \<open>util.format('%s', n)\<close> prints it.\<close>

definition digit_char :: "nat \<Rightarrow> char" where
  "digit_char d = char_of (48 + d)"

function show_nat :: "nat \<Rightarrow> string" where
  "show_nat n = (if n < 10 then [digit_char n] else show_nat (n div 10) @ [digit_char (n mod 10)])"
  by pat_completeness auto
termination
  by (relation "measure id") auto

definition show_int :: "int \<Rightarrow> string" where
  "show_int i = (if i < 0 then CHR ''-'' # show_nat (nat (- i)) else show_nat (nat i))"

text \<open>
  \<open>data.indexOf(marker)\<close>: the index of the first occurrence of \<open>marker\<close> in \<open>data\<close>,
  or \<open>-1\<close> when there is none.
\<close>

fun indexOf_from :: "int \<Rightarrow> string \<Rightarrow> string \<Rightarrow> int" where
  "indexOf_from i [] m = (if m = [] then i else - 1)"
| "indexOf_from i (c # cs) m = (if prefix m (c # cs) then i else indexOf_from (i + 1) cs m)"

definition indexOf :: "string \<Rightarrow> string \<Rightarrow> int" where
  "indexOf data m = indexOf_from 0 data m"

text \<open>\<open>s.split(c)\<close> for a one-character separator, and \<open>xs.join(sep)\<close>.\<close>

fun split_char :: "char \<Rightarrow> string \<Rightarrow> string list" where
  "split_char c [] = [[]]"
| "split_char c (x # xs) =
     (if x = c then [] # split_char c xs
      else (case split_char c xs of [] \<Rightarrow> [[x]] | w # ws \<Rightarrow> (x # w) # ws))"

text \<open>
  \<open>s.split('\r\n')\<close>, and \<open>s.trim()\<close> on the white space of ASCII (the console of the
  child prints ASCII).
\<close>

fun split_crlf :: "string \<Rightarrow> string list" where
  "split_crlf (a # b # xs) =
     (if a = CHR 0x0D \<and> b = CHR 0x0A then [] # split_crlf xs
      else (case split_crlf (b # xs) of [] \<Rightarrow> [[a]] | w # ws \<Rightarrow> (a # w) # ws))"
| "split_crlf [a] = [[a]]"
| "split_crlf [] = [[]]"

definition is_space :: "char \<Rightarrow> bool" where
  "is_space c = (c \<in> set [CHR 0x20, CHR 0x09, CHR 0x0A, CHR 0x0B, CHR 0x0C, CHR 0x0D])"

definition trim :: "string \<Rightarrow> string" where
  "trim s = rev (dropWhile is_space (rev (dropWhile is_space s)))"

fun join :: "string \<Rightarrow> string list \<Rightarrow> string" where
  "join sep [] = []"
| "join sep [x] = x"
| "join sep (x # y # ys) = x @ sep @ join sep (y # ys)"

section \<open>Observable effects\<close>

type_synonym sid = string

text \<open>
  Everything the wrapper does to the outside is appended to a trace:
  \<^item> \<open>Emit name args\<close>: \<open>this.emit(name, ...args)\<close> on the service, as the listeners of its
    users see it;
  \<^item> \<open>SockEmit id event data\<close>: \<open>socket.emit(event, data)\<close> on the connection \<open>id\<close>;
  \<^item> \<open>SockDisconnect id\<close>: \<open>socket.disconnect(true)\<close>;
  \<^item> \<open>Rpc name arg\<close>: a call \<open>this.api[name](arg)\<close> to the RPC client;
  \<^item> \<open>DbPut key v\<close>: \<open>this.db.put(key, v)\<close> on the persisted store;
  \<^item> \<open>Spawn path args\<close>: \<open>pty.spawn(path, args, ...)\<close>;
  \<^item> \<open>ProcessExit code\<close>: \<open>process.exit(code)\<close>.
\<close>

datatype effect =
    Emit string "jsval list"
  | SockEmit sid string jsval
  | SockDisconnect sid
  | Rpc string jsval
  | DbPut string int
  | Spawn string "string list"
  | ProcessExit int

section \<open>The WebSocket gateway (lib/websocket.js)\<close>

text \<open>
  \<open>password\<close> is the sha256 hash of the configured password, or \<open>false\<close> (\<open>None\<close>);
  \<open>permittedClients\<close> lists the ids of the authenticated connections in the order in
  which they were added, which is the order \<open>for (key in ...)\<close> visits them.
\<close>

record websocket =
  password :: "string option"
  port :: int
  permittedClients :: "sid list"

text \<open>
  \<open>WebSocket.prototype.broadcast\<close>: returns the sends it performs. The event name is
  \<open>false\<close> when it is missing or empty, and then nothing is sent. A send is assumed not
  to throw.
\<close>

definition broadcast :: "string \<Rightarrow> jsval \<Rightarrow> websocket \<Rightarrow> effect list" where
  "broadcast event data ws =
     (let d = js_or data (JObj []) in
      if event = [] then []
      else map (\<lambda>key. SockEmit key event d) (permittedClients ws))"

text \<open>\<open>WebSocket.prototype.send\<close> to one connection.\<close>

definition send :: "sid \<Rightarrow> string \<Rightarrow> jsval \<Rightarrow> effect list" where
  "send sock event data =
     (let d = js_or data (JObj []) in
      if event = [] then [] else [SockEmit sock event d])"

section \<open>The service object\<close>

text \<open>
  What the module takes from its host: \<open>resolve\<close> is what \<open>fixPath\<close> makes of a non-empty
  path (home directory substituted, then \<open>path.resolve\<close>), \<open>existsSync\<close> is
  \<open>fs.existsSync\<close>, \<open>sha256\<close> the hash of the gateway, \<open>default_path\<close> and
  \<open>default_logFile\<close> the two paths resolved against the module's directory,
  \<open>JSON_parse\<close> is \<open>JSON.parse\<close> (\<open>None\<close> when it throws), and \<open>api_properties\<close> the
  own property names of the RPC client's prototype.
\<close>

record host =
  resolve :: "string \<Rightarrow> string"
  existsSync :: "string \<Rightarrow> bool"
  sha256 :: "string \<Rightarrow> string"
  default_path :: string
  default_logFile :: string
  JSON_parse :: "string \<Rightarrow> jsval option"
  api_properties :: "string list"

text \<open>
  The constructor's options, each possibly absent and each of the type that the
  documentation gives it. The options that are only handed on to the RPC client
  (\<open>defaultMixin\<close>, \<open>defaultFee\<close>, ...) are left out.
\<close>

record opts =
  o_appName :: "string option"
  o_pollingInterval :: "int option"
  o_saveInterval :: "int option"
  o_scanInterval :: "int option"
  o_maxPollingFailures :: "int option"
  o_timeout :: "int option"
  o_enableWebSocket :: "bool option"
  o_path :: "string option"
  o_config :: "string option"
  o_bindAddress :: "string option"
  o_bindPort :: "int option"
  o_rpcPassword :: "string option"
  o_rpcLegacySecurity :: "bool option"
  o_containerFile :: "string option"
  o_containerPassword :: "string option"
  o_logFile :: "string option"
  o_logLevel :: "int option"
  o_syncFromZero :: "bool option"
  o_daemonRpcAddress :: "string option"
  o_daemonRpcPort :: "int option"

text \<open>
  The down-debounce timer \<open>this.trigger\<close>: \<open>null\<close> or never set (\<open>NoTimer\<close>), a pending
  timeout with the time in milliseconds at which it fires, or a timeout object that has
  fired and has not been cleared (it is still truthy).
\<close>

datatype timer = NoTimer | Pending nat | Fired

text \<open>
  The fields of a \<open>ZumService\<close>. \<open>scanHeight\<close> is the value stored under that key in
  \<open>this.db\<close>, \<open>child\<close> tells whether a child process has been spawned, the three
  \<open>...IntervalPtr\<close> fields whether that interval is set, \<open>webSocket\<close> is the gateway when
  it was set up, \<open>registered\<close> has one entry for each call of
  \<open>_registerWebSocketClientEvents\<close> (the connection it added its listeners to),
  \<open>inflight\<close> lists the ranges \<open>(height, cnt)\<close> of the scan requests that have been
  issued and have not settled yet, in the order of their ticks,
  \<open>halted\<close> becomes true at \<open>process.exit\<close>, and \<open>trace\<close> collects the
  observable effects. \<open>synced\<close> is \<open>undefined\<close> until \<open>start()\<close>; it is only ever
  tested for truthiness, so \<open>undefined\<close> is written \<open>False\<close>.
\<close>

record service =
  appName :: string
  pollingInterval :: int
  saveInterval :: int
  scanInterval :: int
  maxPollingFailures :: int
  timeout :: int
  enableWebSocket :: bool
  path :: string
  config :: "string option"
  bindAddress :: string
  bindPort :: int
  rpcPassword :: "string option"
  rpcLegacySecurity :: bool
  containerFile :: "string option"
  containerPassword :: "string option"
  logFile :: "string option"
  logLevel :: int
  syncFromZero :: bool
  daemonRpcAddress :: string
  daemonRpcPort :: int
  scanHeight :: "int option"
  knownBlockCount :: int
  isRunning :: bool
  synced :: bool
  trigger :: timer
  scanIntervalPtr :: bool
  pollingIntervalPtr :: bool
  saveIntervalPtr :: bool
  child :: bool
  webSocket :: "websocket option"
  registered :: "sid list"
  inflight :: "(int \<times> int) list"
  halted :: bool
  trace :: "effect list"

definition out :: "effect list \<Rightarrow> service \<Rightarrow> service" where
  "out es s = s\<lparr>trace := trace s @ es\<rparr>"

subsection \<open>The event bus\<close>

text \<open>
  The listeners that \<open>_setupWebSocket\<close> registers on the service: which broadcast, if
  any, follows the signal \<open>name\<close> emitted with \<open>args\<close>.
\<close>

definition fanout :: "string \<Rightarrow> jsval list \<Rightarrow> (string \<times> jsval) option" where
  "fanout name args =
     (if name = ''close'' then Some (''close'', arg 0 args)
      else if name = ''data'' then Some (''data'', arg 0 args)
      else if name = ''down'' then Some (''down'', JUndefined)
      else if name = ''error'' then Some (''error'', arg 0 args)
      else if name = ''info'' then Some (''info'', arg 0 args)
      else if name = ''save'' then Some (''save'', JUndefined)
      else if name = ''scan'' then
        Some (''scan'', JObj [(''fromBlock'', arg 0 args), (''toBlock'', arg 1 args)])
      else if name = ''status'' then Some (''status'', arg 0 args)
      else if name = ''synced'' then Some (''synced'', JUndefined)
      else if name = ''transaction'' then Some (''transaction'', arg 0 args)
      else if name = ''warning'' then Some (''info'', arg 0 args)
      else if name = ''alive'' then Some (''alive'', JUndefined)
      else None)"

text \<open>The sends of that broadcast; none when the gateway was not set up.\<close>

definition relay :: "string \<Rightarrow> jsval list \<Rightarrow> service \<Rightarrow> effect list" where
  "relay name args s =
     (case webSocket s of
        None \<Rightarrow> []
      | Some ws \<Rightarrow> (case fanout name args of None \<Rightarrow> [] | Some (e, d) \<Rightarrow> broadcast e d ws))"

text \<open>
  \<open>this.emit(name, ...args)\<close>. The listeners run in the order of their registration:
  first the gateway's broadcast (registered by \<open>_setupWebSocket\<close>), then the
  constructor's own listeners: \<open>synced\<close> sets the scan interval unless it is set already,
  \<open>down\<close> marks the process not running.
\<close>

definition emit :: "string \<Rightarrow> jsval list \<Rightarrow> service \<Rightarrow> service" where
  "emit name args s =
     (let s1 = out (Emit name args # relay name args s) s;
          s2 = (if name = ''synced'' then
                  (if scanIntervalPtr s1 then s1 else s1\<lparr>scanIntervalPtr := True\<rparr>)
                else s1)
      in if name = ''down'' then s2\<lparr>isRunning := False\<rparr> else s2)"

subsection \<open>The constructor\<close>

definition fixPath :: "host \<Rightarrow> string option \<Rightarrow> string option" where
  "fixPath h oldPath =
     (case oldPath of
        None \<Rightarrow> None
      | Some x \<Rightarrow> if x = [] then None else Some (resolve h x))"

text \<open>
  \<open>new WebSocket({password, port})\<close>: the password is hashed when there is one, and the
  set of permitted clients starts empty.
\<close>

definition new_WebSocket :: "host \<Rightarrow> string option \<Rightarrow> int \<Rightarrow> websocket" where
  "new_WebSocket h pw p =
     \<lparr>password = (case or_false pw of None \<Rightarrow> None | Some x \<Rightarrow> Some (sha256 h x)),
      port = or_int (Some p) 17071,
      permittedClients = []\<rparr>"

definition setupWebSocket :: "host \<Rightarrow> service \<Rightarrow> service" where
  "setupWebSocket h s =
     (if enableWebSocket s
      then s\<lparr>webSocket := Some (new_WebSocket h (rpcPassword s) (bindPort s + 1))\<rparr>
      else s)"

text \<open>
  \<open>new ZumService(opts)\<close>, with \<open>stored\<close> the scan height that the storage file of the
  application holds, if any.
\<close>

definition ZumService :: "host \<Rightarrow> int option \<Rightarrow> opts \<Rightarrow> service" where
  "ZumService h stored opts =
     setupWebSocket h
       \<lparr>appName = or_str (o_appName opts) ''default'',
        pollingInterval = or_int (o_pollingInterval opts) 10,
        saveInterval = or_int (o_saveInterval opts) 10,
        scanInterval = or_int (o_scanInterval opts) 5,
        maxPollingFailures = or_int (o_maxPollingFailures opts) 3,
        timeout = or_int (o_timeout opts) 2000,
        enableWebSocket = or_bool (o_enableWebSocket opts) True,
        path = resolve h (or_str (o_path opts) (default_path h)),
        config = fixPath h (or_false (o_config opts)),
        bindAddress = or_str (o_bindAddress opts) ''127.0.0.1'',
        bindPort = or_int (o_bindPort opts) 17070,
        rpcPassword = or_false (o_rpcPassword opts),
        rpcLegacySecurity = or_bool (o_rpcLegacySecurity opts) False,
        containerFile = fixPath h (or_false (o_containerFile opts)),
        containerPassword = or_false (o_containerPassword opts),
        logFile = fixPath h (Some (or_str (o_logFile opts) (default_logFile h))),
        logLevel = or_int (o_logLevel opts) 4,
        syncFromZero = or_bool (o_syncFromZero opts) False,
        daemonRpcAddress =
          (let a = or_str (o_daemonRpcAddress opts) ''127.0.0.1''
           in if a = ''0.0.0.0'' then ''127.0.0.1'' else a),
        daemonRpcPort = or_int (o_daemonRpcPort opts) 17935,
        scanHeight = stored,
        knownBlockCount = 0,
        isRunning = False,
        synced = False,
        trigger = NoTimer,
        scanIntervalPtr = False,
        pollingIntervalPtr = False,
        saveIntervalPtr = False,
        child = False,
        webSocket = None,
        registered = [],
        inflight = [],
        halted = False,
        trace = []\<rparr>"

subsection \<open>Starting the child process\<close>

text \<open>What \<open>%s\<close> prints for a field that holds a string or \<open>false\<close>.\<close>

definition str_of :: "string option \<Rightarrow> string" where
  "str_of v = (case v of None \<Rightarrow> ''false'' | Some x \<Rightarrow> x)"

text \<open>
  \<open>_buildargs\<close>: the argument list, or \<open>false\<close> (\<open>None\<close>) after an \<open>error\<close> signal when
  the configuration is refused. Each \<open>util.format('%s --flag %s', args, value)\<close> appends
  to the string \<open>args\<close>, which is split at the spaces in the end.
  \<open>buildargs_container\<close> is the part of the function after the choice of the RPC
  credential.
\<close>

definition buildargs_container :: "host \<Rightarrow> service \<Rightarrow> string \<Rightarrow> service \<times> string list option" where
  "buildargs_container h s args4 =
     (if \<not> str_truthy (containerFile s) then
        (emit ''error'' [JStr ''Cannot start without defining a container file''] s, None)
      else if \<not> existsSync h (str_of (containerFile s)) then
        (emit ''error''
           [JStr ''Wallet container file does not exist. Please check your path and try again'']
           s, None)
      else
        let args5 = args4 @ '' --container-file '' @ str_of (containerFile s);
            s1 = (if \<not> str_truthy (containerPassword s) then
                    emit ''warning''
                      [JStr ''No wallet container password defined. This may work... but you really should use a password'']
                      s
                  else s);
            args6 = (if \<not> str_truthy (containerPassword s) then args5
                     else args5 @ '' --container-password '' @ str_of (containerPassword s));
            args7 = (if str_truthy (logFile s) then args6 @ '' --log-file '' @ str_of (logFile s)
                     else args6);
            args8 = args7 @ '' --log-level '' @ show_int (logLevel s);
            args9 = (if syncFromZero s then args8 @ '' --SYNC_FROM_ZERO'' else args8);
            args10 = (if daemonRpcAddress s \<noteq> [] then
                        args9 @ '' --daemon-address '' @ daemonRpcAddress s
                      else args9);
            args11 = (if daemonRpcPort s \<noteq> 0 then
                        args10 @ '' --daemon-port '' @ show_int (daemonRpcPort s)
                      else args10)
        in (s1, Some (split_char CHR '' '' args11)))"

definition buildargs :: "host \<Rightarrow> service \<Rightarrow> service \<times> string list option" where
  "buildargs h s =
     (let args0 = [];
          args1 = (if str_truthy (config s) then args0 @ '' --config '' @ str_of (config s)
                   else args0);
          args2 = args1 @ '' --bind-address '' @ bindAddress s;
          args3 = args2 @ '' --bind-port '' @ show_int (bindPort s)
      in
      if str_truthy (rpcPassword s) then
        buildargs_container h s (args3 @ '' --rpc-password '' @ str_of (rpcPassword s))
      else if rpcLegacySecurity s then
        buildargs_container h s (args3 @ '' --rpc-legacy-security'')
      else
        (emit ''error''
           [JStr ''Cannot start without either an RPC password or RPC Legacy Security Enabled'']
           s, None))"

text \<open>
  \<open>start()\<close>. When the arguments cannot be built it emits \<open>error\<close> and returns before
  \<open>pty.spawn\<close>; otherwise it spawns the child, adds the listeners \<open>child_error\<close>,
  \<open>on_data\<close> and \<open>child_close\<close> below to it, and emits \<open>start\<close>.
\<close>

definition start :: "host \<Rightarrow> service \<Rightarrow> service" where
  "start h s =
     (let s1 = emit ''info'' [JStr ''Attempting to start zum-service...''] s;
          s2 = s1\<lparr>synced := False\<rparr>
      in case buildargs h s2 of
           (s3, None) \<Rightarrow>
             emit ''error''
               [JStr ''Could not build the zum-service arguments... please check your config and try again'']
               s3
         | (s3, Some args) \<Rightarrow>
             emit ''start'' [JStr (path s3 @ join '' '' args)]
               (out [Spawn (path s3) args] (s3\<lparr>child := True\<rparr>)))"

text \<open>
  The \<open>error\<close> listener of the child, and its \<open>close\<close> listener, whose signal is
  emitted two seconds after the child has closed.
\<close>

definition child_error :: "string \<Rightarrow> service \<Rightarrow> service" where
  "child_error err s =
     emit ''down'' [] (emit ''error'' [JStr (''Error in child process: '' @ err)] s)"

definition child_close :: "int \<Rightarrow> service \<Rightarrow> service" where
  "child_close exitcode s = emit ''close'' [JNum exitcode] s"

subsection \<open>Health and sync monitor\<close>

text \<open>The reply of \<open>getStatus\<close>.\<close>

record status =
  r_blockCount :: int
  r_knownBlockCount :: int
  r_lastBlockHash :: string
  r_peerCount :: int

definition status_val :: "status \<Rightarrow> jsval" where
  "status_val r =
     JObj [(''blockCount'', JNum (r_blockCount r)),
           (''knownBlockCount'', JNum (r_knownBlockCount r)),
           (''lastBlockHash'', JStr (r_lastBlockHash r)),
           (''peerCount'', JNum (r_peerCount r))]"

text \<open>
  The delay that \<open>setTimeout\<close> uses, in milliseconds: a delay below 1 or above
  \<open>2^31 - 1\<close> is replaced by 1.
\<close>

definition timer_delay :: "int \<Rightarrow> nat" where
  "timer_delay d = (if d < 1 \<or> 2147483647 < d then 1 else nat d)"

text \<open>\<open>_triggerDown\<close>, called at time \<open>now\<close> (milliseconds).\<close>

definition triggerDown :: "nat \<Rightarrow> service \<Rightarrow> service" where
  "triggerDown now s =
     (if trigger s = NoTimer
      then s\<lparr>trigger := Pending (now + timer_delay (pollingInterval s * maxPollingFailures s))\<rparr>
      else s)"

definition triggerUp :: "service \<Rightarrow> service" where
  "triggerUp s =
     (let s1 = (if \<not> isRunning s then emit ''alive'' [] (s\<lparr>isRunning := True\<rparr>) else s)
      in if trigger s1 \<noteq> NoTimer then s1\<lparr>trigger := NoTimer\<rparr> else s1)"

text \<open>
  The event loop at time \<open>now\<close>: a pending down timer whose time has come runs its
  callback, which emits \<open>down\<close>. The timeout object stays in \<open>this.trigger\<close>.
\<close>

definition fire_timers :: "nat \<Rightarrow> service \<Rightarrow> service" where
  "fire_timers now s =
     (case trigger s of
        Pending d \<Rightarrow> if d \<le> now then emit ''down'' [] (s\<lparr>trigger := Fired\<rparr>) else s
      | _ \<Rightarrow> s)"

text \<open>The two continuations of \<open>this.api.getStatus()\<close> in the polling interval.\<close>

definition poll_resolved :: "status \<Rightarrow> service \<Rightarrow> service" where
  "poll_resolved result s =
     (let s1 = emit ''status'' [status_val result] s;
          s2 = s1\<lparr>knownBlockCount := r_blockCount result\<rparr>;
          s3 = (if r_knownBlockCount result - r_blockCount result > 1 then s2\<lparr>synced := False\<rparr>
                else if r_blockCount result + 1 = r_knownBlockCount result
                        \<or> r_blockCount result = r_knownBlockCount result then
                  (if \<not> synced s2 then emit ''synced'' [] (s2\<lparr>synced := True\<rparr>) else s2)
                else s2)
      in triggerUp s3)"

definition poll_rejected :: "nat \<Rightarrow> string \<Rightarrow> service \<Rightarrow> service" where
  "poll_rejected now err s =
     triggerDown now (emit ''error'' [JStr (''Error retrieving wallet status: '' @ err)] s)"

text \<open>The two continuations of \<open>this.api.save()\<close> in the save interval.\<close>

definition save_resolved :: "service \<Rightarrow> service" where
  "save_resolved s = emit ''save'' [] s"

definition save_rejected :: "string \<Rightarrow> service \<Rightarrow> service" where
  "save_rejected err s =
     emit ''error'' [JStr (''Error when saving wallet container: '' @ err)] s"

text \<open>\<open>_startChecks\<close> sets the polling and the save interval.\<close>

definition startChecks :: "service \<Rightarrow> service" where
  "startChecks s = s\<lparr>pollingIntervalPtr := True, saveIntervalPtr := True\<rparr>"

text \<open>
  A run of the monitor: the outcomes of the polling cycles in the order of their arrival,
  each with the time in milliseconds at which the promise settles. Timers that are due
  run before the outcome is handled.
\<close>

datatype poll = Resolved status | Rejected string

definition poll_step :: "service \<Rightarrow> nat \<times> poll \<Rightarrow> service" where
  "poll_step s ev =
     (let s1 = fire_timers (fst ev) s
      in case snd ev of
           Resolved result \<Rightarrow> poll_resolved result s1
         | Rejected err \<Rightarrow> poll_rejected (fst ev) err s1)"

text \<open>The outcomes \<open>evs\<close> are handled, then time passes until \<open>until\<close>.\<close>

definition monitor_run :: "(nat \<times> poll) list \<Rightarrow> nat \<Rightarrow> service \<Rightarrow> service" where
  "monitor_run evs until s = fire_timers until (foldl poll_step s evs)"

subsection \<open>Console output of the child\<close>

text \<open>
  \<open>_stdio\<close> on one line of output. \<open>process.exit(1)\<close> ends the supervising process:
  nothing runs after it.
\<close>

definition stdio :: "string \<Rightarrow> service \<Rightarrow> service" where
  "stdio data s =
     (if indexOf data ''Loading container'' \<noteq> - 1 then
        emit ''info'' [JStr ''zum-service is loading the wallet container...''] s
      else if indexOf data ''The password is wrong'' \<noteq> - 1 then
        (let s1 = emit ''error'' [JStr ''************************************************''] s;
             s2 = emit ''error'' [JStr ''THE PASSWORD FOR THE WALLET CONTAINER IS INVALID''] s1;
             s3 = emit ''error'' [JStr ''HALTING THE SERVICE DUE TO ERROR''] s2;
             s4 = emit ''error'' [JStr ''************************************************''] s3
         in (out [ProcessExit 1] s4)\<lparr>halted := True\<rparr>)
      else if indexOf data ''Container loaded'' \<noteq> - 1 then
        emit ''info'' [JStr ''zum-service has loaded the wallet container...''] s
      else if indexOf data ''Wallet loading is finished'' \<noteq> - 1 then
        (let s1 = emit ''info'' [JStr ''Wallet loading has finished''] s;
             s2 = out [Rpc ''getAddresses'' JUndefined] s1
         in startChecks s2)
      else s)"

text \<open>
  The two continuations of the \<open>getAddresses\<close> call above. \<open>addresses[0]\<close> of an empty
  reply is \<open>undefined\<close>.
\<close>

definition addresses_resolved :: "string list \<Rightarrow> service \<Rightarrow> service" where
  "addresses_resolved addresses s =
     emit ''info''
       [JStr (''Started zum-service with base public address: ''
              @ (case addresses of [] \<Rightarrow> ''undefined'' | a # as \<Rightarrow> a))] s"

definition addresses_rejected :: "string \<Rightarrow> service \<Rightarrow> service" where
  "addresses_rejected err s =
     emit ''warning'' [JStr (''Error retrieving addresses from wallet: '' @ err)] s"

text \<open>
  The body of the loop of the child's \<open>data\<close> listener: \<open>_stdio\<close>, then the line itself
  as a \<open>data\<close> signal, unless the process has ended.
\<close>

definition on_line :: "service \<Rightarrow> string \<Rightarrow> service" where
  "on_line s line =
     (if halted s then s
      else let s1 = stdio line s in if halted s1 then s1 else emit ''data'' [JStr line] s1)"

text \<open>The \<open>data\<close> listener of the child: the chunk is trimmed and split into lines.\<close>

definition on_data :: "string \<Rightarrow> service \<Rightarrow> service" where
  "on_data data s = foldl on_line s (split_crlf (trim data))"

subsection \<open>Scan loop\<close>

text \<open>
  One tick of the scan interval. It returns the range \<open>(height, cnt)\<close> that the callbacks
  of the request close over, or \<open>None\<close> when the tick does nothing.
\<close>

definition scan_tick :: "service \<Rightarrow> service \<times> (int \<times> int) option" where
  "scan_tick s =
     (if \<not> synced s then (s, None)
      else
        let height0 = scanHeight s;
            height = (case height0 of None \<Rightarrow> 1 | Some x \<Rightarrow> if x = 0 then 1 else x)
        in
        if height \<ge> knownBlockCount s then (s, None)
        else
          let cnt0 = knownBlockCount s - height;
              cnt1 = (if cnt0 > 100 then 1000
                      else if cnt0 > 100 then 100
                      else if cnt0 > 10 then 10
                      else 1);
              cnt = (if height + cnt1 > knownBlockCount s then knownBlockCount s - height - 1
                     else cnt1);
              s1 = emit ''scan'' [JNum height, JNum (height + cnt)] s;
              s2 = out [Rpc ''getTransactions''
                          (JObj [(''firstBlockIndex'', JNum height), (''blockCount'', JNum cnt)])] s1
          in (s2, Some (height, cnt)))"

text \<open>The two continuations of the request for the range \<open>(height, cnt)\<close>.\<close>

definition scan_resolved :: "int \<times> int \<Rightarrow> jsval list \<Rightarrow> service \<Rightarrow> service" where
  "scan_resolved req transactions s =
     (let s1 = foldl (\<lambda>st t. emit ''transaction'' [t] st) s transactions
      in out [DbPut ''scanHeight'' (fst req + snd req)]
           (s1\<lparr>scanHeight := Some (fst req + snd req)\<rparr>))"

definition scan_rejected :: "int \<times> int \<Rightarrow> string \<Rightarrow> service \<Rightarrow> service" where
  "scan_rejected req err s =
     emit ''error''
       [JStr (''Error scanning transactions from '' @ show_int (fst req) @ '' to ''
              @ show_int (fst req + snd req) @ '': '' @ err)] s"

text \<open>
  The callback of the scan interval: a tick, which leaves the request it issues in
  flight. Nothing keeps a tick from running while earlier requests are in flight.
\<close>

definition scan_interval :: "service \<Rightarrow> service" where
  "scan_interval s =
     (case scan_tick s of
        (s1, None) \<Rightarrow> s1
      | (s1, Some req) \<Rightarrow> s1\<lparr>inflight := inflight s1 @ [req]\<rparr>)"

text \<open>
  The settlement of the request at position \<open>k\<close> of those in flight: its promise
  resolves with the transactions or rejects, and the callback runs with the range that it
  closed over at its tick. Requests settle in any order.
\<close>

datatype scan_outcome = Transactions "jsval list" | ScanError string

definition scan_settle :: "nat \<Rightarrow> scan_outcome \<Rightarrow> service \<Rightarrow> service" where
  "scan_settle k r s =
     (if k < length (inflight s) then
        (let req = inflight s ! k;
             s1 = s\<lparr>inflight := take k (inflight s) @ drop (Suc k) (inflight s)\<rparr>
         in case r of
              Transactions ts \<Rightarrow> scan_resolved req ts s1
            | ScanError err \<Rightarrow> scan_rejected req err s1)
      else s)"

text \<open>The cursor that a tick reads: the stored value, or 1 when it is absent or 0.\<close>

definition cursor :: "service \<Rightarrow> int" where
  "cursor s = (case scanHeight s of None \<Rightarrow> 1 | Some x \<Rightarrow> if x = 0 then 1 else x)"

subsection \<open>Gateway connections\<close>

text \<open>
  The handlers below exist only when the gateway was set up. \<open>with_ws\<close> runs a handler
  on the gateway, and does nothing without one.
\<close>

definition with_ws :: "(websocket \<Rightarrow> service \<Rightarrow> service) \<Rightarrow> service \<Rightarrow> service" where
  "with_ws f s = (case webSocket s of None \<Rightarrow> s | Some ws \<Rightarrow> f ws s)"

text \<open>
  A new connection: the challenge is sent, and the service reports the connection as an
  \<open>info\<close> signal. Ten seconds later \<open>ws_auth_timeout\<close> runs.
\<close>

definition ws_connection :: "sid \<Rightarrow> service \<Rightarrow> service" where
  "ws_connection sock s =
     with_ws (\<lambda>ws st.
       emit ''info'' [JStr (''[WEBSOCKET] Client connected with socketId: '' @ sock)]
         (out [SockEmit sock ''challenge'' (JBool True)] st)) s"

text \<open>
  The \<open>ready\<close> event of the gateway, half a second after its construction: the service
  reports the address, the port and the hashed password as an \<open>info\<close> signal.
\<close>

definition ws_ready :: "service \<Rightarrow> service" where
  "ws_ready s =
     with_ws (\<lambda>ws st.
       emit ''info''
         [JStr (''Accepting WebSocket connections on '' @ bindAddress st @ '':''
                @ show_int (bindPort st + 1) @ '' with password: '' @ str_of (password ws))]
         st) s"

definition ws_auth_timeout :: "sid \<Rightarrow> service \<Rightarrow> service" where
  "ws_auth_timeout sock s =
     with_ws (\<lambda>ws st.
       if sock \<notin> set (permittedClients ws) then out [SockDisconnect sock] st else st) s"

text \<open>The \<open>disconnect\<close> event of a connection.\<close>

definition ws_disconnect :: "sid \<Rightarrow> service \<Rightarrow> service" where
  "ws_disconnect sock s =
     with_ws (\<lambda>ws st.
       emit ''info'' [JStr (''[WEBSOCKET] Client disconnected with socketId: '' @ sock)]
         (st\<lparr>webSocket := Some (ws\<lparr>permittedClients := removeAll sock (permittedClients ws)\<rparr>)\<rparr>)) s"

text \<open>\<open>this.password\<close> as a value: the hash, or \<open>false\<close>.\<close>

definition password_val :: "websocket \<Rightarrow> jsval" where
  "password_val ws = (case password ws of None \<Rightarrow> JBool False | Some x \<Rightarrow> JStr x)"

text \<open>
  \<open>_registerWebSocketClientEvents\<close> adds one listener for each command name to the
  connection. The command names are the property names of the RPC client's prototype
  other than \<open>constructor\<close> and those that start with an underscore.
\<close>

definition events :: "host \<Rightarrow> string list" where
  "events h = filter (\<lambda>f. f \<noteq> ''constructor'' \<and> \<not> prefix ''_'' f) (api_properties h)"

definition registerWebSocketClientEvents :: "sid \<Rightarrow> service \<Rightarrow> service" where
  "registerWebSocketClientEvents sock s = s\<lparr>registered := registered s @ [sock]\<rparr>"

text \<open>
  The \<open>challenge\<close> event of a connection, carrying \<open>pw\<close>. The comparison is \<open>===\<close> with
  a string or a boolean, which is equality of values. On success the connection joins the
  permitted clients (a key that is there already keeps its place), the service registers
  the request listeners, tells the connection \<open>alive\<close> when the process is running and
  emits \<open>info\<close>; then \<open>auth\<close> is answered. On failure the service emits \<open>warning\<close>, and
  the connection is answered and disconnected.
\<close>

definition ws_challenge :: "sid \<Rightarrow> jsval \<Rightarrow> service \<Rightarrow> service" where
  "ws_challenge sock pw s =
     with_ws (\<lambda>ws st.
       if pw = password_val ws then
         (let ws1 = ws\<lparr>permittedClients :=
                         (if sock \<in> set (permittedClients ws) then permittedClients ws
                          else permittedClients ws @ [sock])\<rparr>;
              s1 = st\<lparr>webSocket := Some ws1\<rparr>;
              s2 = registerWebSocketClientEvents sock s1;
              s3 = (if isRunning s2 then out (send sock ''alive'' JUndefined) s2 else s2);
              s4 = emit ''info''
                     [JStr (''[WEBSOCKET] Client authenticated with socketId: '' @ sock)] s3
          in out [SockEmit sock ''auth'' (JBool True)] s4)
       else
         (let s1 = emit ''warning''
                     [JStr (''[WEBSOCKET] Client failed authentication with socketId: '' @ sock)] st
          in out [SockEmit sock ''auth'' (JBool False), SockDisconnect sock] s1)) s"

subsection \<open>Gateway requests\<close>

datatype js_error = TypeError

definition obj_get :: "(string \<times> jsval) list \<Rightarrow> string \<Rightarrow> jsval" where
  "obj_get kvs k = (case map_of kvs k of None \<Rightarrow> JUndefined | Some v \<Rightarrow> v)"

fun obj_set :: "(string \<times> jsval) list \<Rightarrow> string \<Rightarrow> jsval \<Rightarrow> (string \<times> jsval) list" where
  "obj_set [] k v = [(k, v)]"
| "obj_set ((k', v') # kvs) k v = (if k' = k then (k, v) # kvs else (k', v') # obj_set kvs k v)"

text \<open>
  Reading \<open>data.nonce\<close>: a \<open>TypeError\<close> on \<open>null\<close> and \<open>undefined\<close>, \<open>undefined\<close> on
  other values that are not objects and on arrays.
\<close>

definition read_nonce :: "jsval \<Rightarrow> js_error + jsval" where
  "read_nonce d =
     (case d of
        JObj kvs \<Rightarrow> Inr (obj_get kvs ''nonce'')
      | JNull \<Rightarrow> Inl TypeError
      | JUndefined \<Rightarrow> Inl TypeError
      | _ \<Rightarrow> Inr JUndefined)"

text \<open>
  Writing \<open>data.nonce = v\<close> in strict mode: a \<open>TypeError\<close> on a value that is not an
  object. An array takes the property; the array value carries its elements only.
\<close>

definition write_nonce :: "jsval \<Rightarrow> jsval \<Rightarrow> js_error + jsval" where
  "write_nonce d v =
     (case d of
        JObj kvs \<Rightarrow> Inr (JObj (obj_set kvs ''nonce'' v))
      | JArr xs \<Rightarrow> Inr (JArr xs)
      | _ \<Rightarrow> Inl TypeError)"

text \<open>What the two callbacks of a request close over: the connection, the command name and \<open>data.nonce\<close>.\<close>

record pending =
  p_sock :: sid
  p_evt :: string
  p_nonce :: jsval

text \<open>
  One listener on one request \<open>evt\<close> with the text \<open>raw\<close>. \<open>fresh\<close> is what \<open>nonce()\<close>
  returns if it is called. The listener throws where \<open>data.nonce\<close> cannot be read or
  written; otherwise it calls the RPC client and leaves the request pending.
\<close>

definition request_listener ::
  "host \<Rightarrow> sid \<Rightarrow> string \<Rightarrow> string \<Rightarrow> int \<Rightarrow> service \<Rightarrow> js_error + service \<times> pending" where
  "request_listener h sock evt raw fresh s =
     (let data = (case JSON_parse h raw of None \<Rightarrow> JObj [] | Some v \<Rightarrow> v)
      in case read_nonce data of
           Inl e \<Rightarrow> Inl e
         | Inr n0 \<Rightarrow>
             (let n = js_or n0 (JNum fresh)
              in case write_nonce data n of
                   Inl e \<Rightarrow> Inl e
                 | Inr data' \<Rightarrow>
                     Inr (out [Rpc evt data'] s, \<lparr>p_sock = sock, p_evt = evt, p_nonce = n\<rparr>)))"

text \<open>The two continuations of \<open>that.api[evt](data)\<close>: the answer to the connection.\<close>

definition request_resolved :: "pending \<Rightarrow> jsval \<Rightarrow> service \<Rightarrow> service" where
  "request_resolved p result s =
     out [SockEmit (p_sock p) (p_evt p) (JObj [(''nonce'', p_nonce p), (''data'', result)])] s"

definition request_rejected :: "pending \<Rightarrow> string \<Rightarrow> service \<Rightarrow> service" where
  "request_rejected p err s =
     out [SockEmit (p_sock p) (p_evt p) (JObj [(''nonce'', p_nonce p), (''error'', JStr err)])] s"

text \<open>
  A request event \<open>evt\<close> arriving on the connection \<open>sock\<close>: every listener that was
  registered for it on this connection runs, one for each registration, each with its own
  \<open>fresh\<close> nonce; a listener that throws ends the dispatch.
\<close>

fun run_listeners ::
  "host \<Rightarrow> sid \<Rightarrow> string \<Rightarrow> string \<Rightarrow> int list \<Rightarrow> service \<Rightarrow> js_error + service \<times> pending list" where
  "run_listeners h sock evt raw [] s = Inr (s, [])"
| "run_listeners h sock evt raw (f # fs) s =
     (case request_listener h sock evt raw f s of
        Inl e \<Rightarrow> Inl e
      | Inr (s1, p) \<Rightarrow>
          (case run_listeners h sock evt raw fs s1 of
             Inl e \<Rightarrow> Inl e
           | Inr (s2, ps) \<Rightarrow> Inr (s2, p # ps)))"

definition on_request ::
  "host \<Rightarrow> sid \<Rightarrow> string \<Rightarrow> string \<Rightarrow> (nat \<Rightarrow> int) \<Rightarrow> service \<Rightarrow> js_error + service \<times> pending list" where
  "on_request h sock evt raw fresh s =
     (if evt \<in> set (events h)
      then run_listeners h sock evt raw
             (map fresh [0 ..< count_list (registered s) sock]) s
      else Inr (s, []))"

section \<open>Runs of the service\<close>

text \<open>
  What the outside delivers to the service: a call of \<open>start()\<close>, a chunk of output, an
  error or the exit of the child, the reply to \<open>getAddresses\<close>, the passing of time
  until a given millisecond, the outcome of a polling cycle with its time, the outcome of
  a save cycle, a tick of the scan interval, the settlement of a scan request in flight,
  the \<open>ready\<close> event of the gateway and the events of a gateway connection. The child
  is heard only once it is spawned; polling, saving and scan ticks happen only while their
  interval is set; nothing happens after \<open>process.exit\<close>. (\<open>stop()\<close> and \<open>write()\<close>
  are not part of the runs.)
\<close>

datatype input =
    Start
  | Console string
  | ChildError string
  | ChildClose int
  | Addresses "string list"
  | AddressesError string
  | Elapse nat
  | Poll nat poll
  | Save "string option"
  | ScanTick
  | ScanSettle nat scan_outcome
  | Ready
  | Connect sid
  | Challenge sid jsval
  | AuthTimeout sid
  | Disconnect sid

definition step :: "host \<Rightarrow> service \<Rightarrow> input \<Rightarrow> service" where
  "step h s i =
     (if halted s then s
      else case i of
             Start \<Rightarrow> start h s
           | Console data \<Rightarrow> if child s then on_data data s else s
           | ChildError err \<Rightarrow> if child s then child_error err s else s
           | ChildClose exitcode \<Rightarrow> if child s then child_close exitcode s else s
           | Addresses addresses \<Rightarrow>
               if pollingIntervalPtr s then addresses_resolved addresses s else s
           | AddressesError err \<Rightarrow>
               if pollingIntervalPtr s then addresses_rejected err s else s
           | Elapse t \<Rightarrow> fire_timers t s
           | Poll t p \<Rightarrow> if pollingIntervalPtr s then poll_step s (t, p) else s
           | Save r \<Rightarrow>
               if saveIntervalPtr s
               then (case r of None \<Rightarrow> save_resolved s | Some err \<Rightarrow> save_rejected err s)
               else s
           | ScanTick \<Rightarrow> if scanIntervalPtr s then scan_interval s else s
           | ScanSettle k r \<Rightarrow> scan_settle k r s
           | Ready \<Rightarrow> ws_ready s
           | Connect sock \<Rightarrow> ws_connection sock s
           | Challenge sock pw \<Rightarrow> ws_challenge sock pw s
           | AuthTimeout sock \<Rightarrow> ws_auth_timeout sock s
           | Disconnect sock \<Rightarrow> ws_disconnect sock s)"

definition run :: "host \<Rightarrow> service \<Rightarrow> input list \<Rightarrow> service" where
  "run h s ins = foldl (step h) s ins"

section \<open>Notions used in the properties\<close>

text \<open>The effects that were added to the trace between the state \<open>s\<close> and the later state \<open>s'\<close>.\<close>

definition emitted :: "service \<Rightarrow> service \<Rightarrow> effect list" where
  "emitted s s' = drop (length (trace s)) (trace s')"

text \<open>The effect is the signal \<open>name\<close> on the event bus, with any arguments.\<close>

fun is_emit :: "string \<Rightarrow> effect \<Rightarrow> bool" where
  "is_emit name (Emit n args) = (n = name)"
| "is_emit name e = False"

fun is_spawn :: "effect \<Rightarrow> bool" where
  "is_spawn (Spawn p args) = True"
| "is_spawn e = False"

fun is_exit :: "effect \<Rightarrow> bool" where
  "is_exit (ProcessExit c) = True"
| "is_exit e = False"

fun is_put :: "effect \<Rightarrow> bool" where
  "is_put (DbPut k v) = True"
| "is_put e = False"

text \<open>
  The configuration that \<open>start()\<close> accepts: an RPC password or the legacy mode, and a
  container file that is defined and exists.
\<close>

definition config_ok :: "host \<Rightarrow> service \<Rightarrow> bool" where
  "config_ok h s =
     ((str_truthy (rpcPassword s) \<or> rpcLegacySecurity s)
      \<and> str_truthy (containerFile s)
      \<and> existsSync h (str_of (containerFile s)))"

text \<open>
  The three parts of the argument string around the container file: the part before the
  RPC credential, the credential (the password when there is one, the legacy mode
  otherwise), and the part after the container file.
\<close>

definition bind_args :: "service \<Rightarrow> string" where
  "bind_args s =
     (if str_truthy (config s) then '' --config '' @ str_of (config s) else [])
     @ '' --bind-address '' @ bindAddress s
     @ '' --bind-port '' @ show_int (bindPort s)"

definition credential_args :: "service \<Rightarrow> string" where
  "credential_args s =
     (if str_truthy (rpcPassword s) then '' --rpc-password '' @ str_of (rpcPassword s)
      else '' --rpc-legacy-security'')"

definition container_tail :: "service \<Rightarrow> string" where
  "container_tail s =
     (if str_truthy (containerPassword s)
      then '' --container-password '' @ str_of (containerPassword s) else [])
     @ (if str_truthy (logFile s) then '' --log-file '' @ str_of (logFile s) else [])
     @ '' --log-level '' @ show_int (logLevel s)
     @ (if syncFromZero s then '' --SYNC_FROM_ZERO'' else [])
     @ (if daemonRpcAddress s \<noteq> [] then '' --daemon-address '' @ daemonRpcAddress s else [])
     @ (if daemonRpcPort s \<noteq> 0 then '' --daemon-port '' @ show_int (daemonRpcPort s)
        else [])"

text \<open>
  A run in which every scan request settles before the next tick of the scan interval:
  a tick arrives only when no request is in flight.
\<close>

fun sequential :: "host \<Rightarrow> service \<Rightarrow> input list \<Rightarrow> bool" where
  "sequential h s [] = True"
| "sequential h s (i # ins) =
     ((case i of ScanTick \<Rightarrow> inflight s = [] | _ \<Rightarrow> True) \<and> sequential h (step h s i) ins)"

text \<open>The input is an event of the scan loop: a tick or a settlement.\<close>

fun is_scan :: "input \<Rightarrow> bool" where
  "is_scan ScanTick = True"
| "is_scan (ScanSettle k r) = True"
| "is_scan i = False"

text \<open>
  At most one request is in flight, and it is for a range that starts at the cursor and
  is not empty.
\<close>

definition scan_inv :: "service \<Rightarrow> bool" where
  "scan_inv s = (inflight s = [] \<or> (\<exists>b. inflight s = [(cursor s, b)] \<and> 1 \<le> b))"

text \<open>
  The batch size as the specification words it: backlog above 100 gives 1000, else
  backlog above 10 gives 10, else 1.
\<close>

definition spec_batch :: "int \<Rightarrow> int" where
  "spec_batch backlog = (if backlog > 100 then 1000 else if backlog > 10 then 10 else 1)"

text \<open>The nonce that the text of a request carries, \<open>undefined\<close> when it carries none.\<close>

definition nonce_of :: "host \<Rightarrow> string \<Rightarrow> jsval" where
  "nonce_of h raw =
     (case JSON_parse h raw of
        Some (JObj kvs) \<Rightarrow> obj_get kvs ''nonce''
      | _ \<Rightarrow> JUndefined)"

text \<open>The nonces of the requests that a request event has left pending.\<close>

definition nonces_of :: "js_error + service \<times> pending list \<Rightarrow> jsval list" where
  "nonces_of r = (case r of Inl e \<Rightarrow> [] | Inr (s', ps) \<Rightarrow> map p_nonce ps)"

subsection \<open>A sample installation\<close>

text \<open>The texts of three requests, which carry the nonces 111, 222 and 0.\<close>

definition dq :: string where
  "dq = [CHR 0x22]"

definition nonce_111 :: string where
  "nonce_111 = ''{'' @ dq @ ''nonce'' @ dq @ '':111}''"

definition nonce_222 :: string where
  "nonce_222 = ''{'' @ dq @ ''nonce'' @ dq @ '':222}''"

definition nonce_0 :: string where
  "nonce_0 = ''{'' @ dq @ ''nonce'' @ dq @ '':0}''"

text \<open>A nonce generator that returns 42.\<close>

definition nonce42 :: "nat \<Rightarrow> int" where
  "nonce42 i = 42"

text \<open>\<open>JSON.parse\<close> on the request texts of the examples; it throws on any other text here.\<close>

definition sample_json :: "string \<Rightarrow> jsval option" where
  "sample_json raw =
     (if raw = nonce_111 then Some (JObj [(''nonce'', JNum 111)])
      else if raw = nonce_222 then Some (JObj [(''nonce'', JNum 222)])
      else if raw = nonce_0 then Some (JObj [(''nonce'', JNum 0)])
      else if raw = ''{}'' then Some (JObj [])
      else if raw = ''null'' then Some JNull
      else None)"

text \<open>
  A host on which only the container file of the sample \<open>service.js\<close> exists, the
  options of that sample, and the service constructed from them on an empty store.
\<close>

definition host0 :: host where
  "host0 =
     \<lparr>resolve = (\<lambda>p. p),
      existsSync = (\<lambda>p. p = ''./container.walletd''),
      sha256 = (\<lambda>x. ''sha256:'' @ x),
      default_path = ''./zum-service'',
      default_logFile = ''./zum-service.log'',
      JSON_parse = sample_json,
      api_properties = [''constructor'', ''_post'', ''getStatus'', ''getBalance'']\<rparr>"

definition no_opts :: opts where
  "no_opts =
     \<lparr>o_appName = None, o_pollingInterval = None, o_saveInterval = None,
      o_scanInterval = None, o_maxPollingFailures = None, o_timeout = None,
      o_enableWebSocket = None, o_path = None, o_config = None, o_bindAddress = None,
      o_bindPort = None, o_rpcPassword = None, o_rpcLegacySecurity = None,
      o_containerFile = None, o_containerPassword = None, o_logFile = None,
      o_logLevel = None, o_syncFromZero = None, o_daemonRpcAddress = None,
      o_daemonRpcPort = None\<rparr>"

definition sample_opts :: opts where
  "sample_opts =
     no_opts\<lparr>o_containerFile := Some ''./container.walletd'', o_rpcPassword := Some ''changeme''\<rparr>"

definition wallet :: service where
  "wallet = ZumService host0 None sample_opts"

text \<open>The example reply of \<open>getStatus\<close> in the documentation, and one of a wallet that lags.\<close>

definition status_synced :: status where
  "status_synced =
     \<lparr>r_blockCount = 4432, r_knownBlockCount = 4432,
      r_lastBlockHash = ''d8db0e28'', r_peerCount = 8\<rparr>"

definition status_behind :: status where
  "status_behind =
     \<lparr>r_blockCount = 4000, r_knownBlockCount = 4432,
      r_lastBlockHash = ''d8db0e28'', r_peerCount = 8\<rparr>"

text \<open>
  The same installation with both RPC credentials configured, and one with no options at
  all.
\<close>

definition both_credentials :: service where
  "both_credentials = ZumService host0 None (sample_opts\<lparr>o_rpcLegacySecurity := Some True\<rparr>)"

definition unconfigured :: service where
  "unconfigured = ZumService host0 None no_opts"

text \<open>
  The sample wallet with two gateway connections: \<open>a\<close> has answered the challenge with
  the hash of the password, \<open>b\<close> has not answered.
\<close>

definition clients :: service where
  "clients =
     run host0 wallet
       [Connect ''a'', Challenge ''a'' (JStr ''sha256:changeme''), Connect ''b'']"

text \<open>The sample wallet, synced, with \<open>n\<close> blocks between its cursor 1 and the known block count.\<close>

definition backlog_of :: "int \<Rightarrow> service" where
  "backlog_of n = wallet\<lparr>synced := True, knownBlockCount := 1 + n\<rparr>"

text \<open>
  The sample installation with a scan interval of one second and an RPC timeout of five
  seconds, so that a scan request can still be in flight at the next ticks; and that
  service after a polling cycle whose reply reports 5001 blocks on both counts: it is
  synced, and its scan interval is set.
\<close>

definition impatient :: service where
  "impatient =
     ZumService host0 None (sample_opts\<lparr>o_scanInterval := Some 1, o_timeout := Some 5000\<rparr>)"

definition status_5001 :: status where
  "status_5001 =
     \<lparr>r_blockCount = 5001, r_knownBlockCount = 5001,
      r_lastBlockHash = ''d8db0e28'', r_peerCount = 8\<rparr>"

definition scanning :: service where
  "scanning = poll_resolved status_5001 impatient"

text \<open>
  Three ticks of the scan interval where the request of the second tick settles last:
  tick, tick, the first request resolves, tick, the third request resolves; and then the
  second request resolves.
\<close>

definition overlapping :: "input list" where
  "overlapping =
     [ScanTick, ScanTick, ScanSettle 0 (Transactions []), ScanTick,
      ScanSettle 1 (Transactions [])]"

text \<open>
  A monitor history of the sample wallet: the polling cycle of second 10 succeeds, the
  cycle of second 20 runs into the RPC timeout of two seconds, and time passes until just
  before the cycle of second 30.
\<close>

definition one_failure :: service where
  "one_failure =
     monitor_run [(10000, Resolved status_synced), (22000, Rejected ''timeout'')] 29999 wallet"

section \<open>Basic facts about the event bus\<close>

lemma trace_out [simp]: "trace (out es s) = trace s @ es"
  by (simp add: out_def)

lemma out_fields [simp]:
  "synced (out es s) = synced s"
  "knownBlockCount (out es s) = knownBlockCount s"
  "scanHeight (out es s) = scanHeight s"
  "webSocket (out es s) = webSocket s"
  "trigger (out es s) = trigger s"
  "halted (out es s) = halted s"
  "child (out es s) = child s"
  "isRunning (out es s) = isRunning s"
  "registered (out es s) = registered s"
  "inflight (out es s) = inflight s"
  "path (out es s) = path s"
  by (simp_all add: out_def)

lemma trace_emit: "trace (emit name args s) = trace s @ Emit name args # relay name args s"
  by (simp add: emit_def Let_def)

lemma emit_fields [simp]:
  "synced (emit name args s) = synced s"
  "knownBlockCount (emit name args s) = knownBlockCount s"
  "scanHeight (emit name args s) = scanHeight s"
  "webSocket (emit name args s) = webSocket s"
  "trigger (emit name args s) = trigger s"
  "halted (emit name args s) = halted s"
  "child (emit name args s) = child s"
  "registered (emit name args s) = registered s"
  "inflight (emit name args s) = inflight s"
  "path (emit name args s) = path s"
  "pollingInterval (emit name args s) = pollingInterval s"
  "maxPollingFailures (emit name args s) = maxPollingFailures s"
  by (simp_all add: emit_def Let_def out_def)

lemma isRunning_emit: "isRunning (emit name args s) = (name \<noteq> ''down'' \<and> isRunning s)"
  by (simp add: emit_def Let_def out_def)

lemma relay_no_emit [simp]: "filter (is_emit n) (relay name args s) = []"
  by (auto simp: relay_def broadcast_def Let_def split: option.splits)

lemma relay_no_spawn [simp]: "filter is_spawn (relay name args s) = []"
  by (auto simp: relay_def broadcast_def Let_def split: option.splits)

lemma relay_upd [simp]:
  "relay name args (s\<lparr>trace := t\<rparr>) = relay name args s"
  "relay name args (s\<lparr>synced := b\<rparr>) = relay name args s"
  "relay name args (s\<lparr>knownBlockCount := k\<rparr>) = relay name args s"
  "relay name args (s\<lparr>isRunning := b\<rparr>) = relay name args s"
  "relay name args (s\<lparr>trigger := tm\<rparr>) = relay name args s"
  "relay name args (s\<lparr>scanHeight := sh\<rparr>) = relay name args s"
  "relay name args (s\<lparr>child := c\<rparr>) = relay name args s"
  "relay name args (s\<lparr>inflight := fl\<rparr>) = relay name args s"
  by (simp_all add: relay_def)

lemma relay_emit [simp]: "relay name args (emit n a s) = relay name args s"
  by (simp add: relay_def)

lemma relay_out [simp]: "relay name args (out es s) = relay name args s"
  by (simp add: relay_def)

text \<open>A broadcast consists of sends to connections only.\<close>

lemma filter_relay:
  "(\<And>k ev d. \<not> P (SockEmit k ev d)) \<Longrightarrow> filter P (relay name args s) = []"
  by (auto simp: relay_def broadcast_def Let_def filter_empty_conv split: option.splits)

lemma step_halted: "halted s \<Longrightarrow> step h s i = s"
  by (simp add: step_def)

lemma emitted_append:
  assumes "trace s1 = trace s @ xs" and "trace s2 = trace s1 @ ys"
  shows "emitted s s2 = xs @ ys"
  using assms by (simp add: emitted_def)

text \<open>\<open>indexOf\<close> finds the marker exactly when the line contains it.\<close>

lemma indexOf_from_sublist: "0 \<le> i \<Longrightarrow> (indexOf_from i d m \<noteq> - 1) = sublist m d"
proof (induction d arbitrary: i)
  case Nil
  then show ?case by auto
next
  case (Cons c cs)
  then show ?case by (auto simp: sublist_Cons_right)
qed

lemma indexOf_sublist: "(indexOf d m \<noteq> - 1) = sublist m d"
  by (simp add: indexOf_def indexOf_from_sublist)

subsection \<open>The sample installation\<close>

lemmas ctor_defs =
  wallet_def ZumService_def setupWebSocket_def new_WebSocket_def sample_opts_def no_opts_def
  host0_def or_false_def or_int_def or_bool_def or_str_def fixPath_def

lemma wallet_ws:
  "webSocket wallet =
     Some \<lparr>password = Some ''sha256:changeme'', port = 17071, permittedClients = []\<rparr>"
  by (simp add: ctor_defs)

lemma wallet_fields:
  "pollingInterval wallet = 10"
  "maxPollingFailures wallet = 3"
  "\<not> isRunning wallet"
  "trigger wallet = NoTimer"
  "\<not> synced wallet"
  "trace wallet = []"
  "\<not> halted wallet"
  "\<not> child wallet"
  "registered wallet = []"
  by (simp_all add: ctor_defs)

lemma relay_wallet: "relay name args wallet = []"
  by (simp add: relay_def wallet_ws broadcast_def Let_def split: option.splits)

lemma backlog_fields:
  "synced (backlog_of n)"
  "knownBlockCount (backlog_of n) = 1 + n"
  "cursor (backlog_of n) = 1"
  "scanHeight (backlog_of n) = None"
  by (simp_all add: backlog_of_def cursor_def ctor_defs)

lemma clients_registered: "registered clients = [''a'']"
  by (simp add: clients_def run_def step_def wallet_fields wallet_ws ws_connection_def
        ws_challenge_def with_ws_def password_val_def registerWebSocketClientEvents_def
        Let_def isRunning_emit)

lemma events_host0: "events host0 = [''getStatus'', ''getBalance'']"
  by (simp add: events_def host0_def)

lemma clients_ws:
  "webSocket clients =
     Some \<lparr>password = Some ''sha256:changeme'', port = 17071, permittedClients = [''a'']\<rparr>"
  by (simp add: clients_def run_def step_def wallet_fields wallet_ws ws_connection_def
        ws_challenge_def with_ws_def password_val_def registerWebSocketClientEvents_def
        Let_def isRunning_emit)

section \<open>Health and sync monitor\<close>

text \<open>
  What holds of the down debounce whatever the unit of its delay is: a failed polling
  cycle emits one \<open>error\<close>, it sets the timer only when none is set, a timer that has
  fired is not set again before a successful cycle clears it, and \<open>down\<close> marks the
  process not running.
\<close>

lemma poll_rejected_error:
  "filter (is_emit ''error'') (emitted s (poll_rejected now err s)) =
     [Emit ''error'' [JStr (''Error retrieving wallet status: '' @ err)]]"
  by (simp add: poll_rejected_def triggerDown_def emitted_def trace_emit)

lemma poll_rejected_arms:
  "trigger s = NoTimer \<Longrightarrow>
     trigger (poll_rejected now err s) =
       Pending (now + timer_delay (pollingInterval s * maxPollingFailures s))"
  "trigger s \<noteq> NoTimer \<Longrightarrow> trigger (poll_rejected now err s) = trigger s"
  by (simp_all add: poll_rejected_def triggerDown_def)

lemma fired_once:
  "trigger s = Fired \<Longrightarrow> fire_timers t s = s"
  "trigger s = Fired \<Longrightarrow> trigger (poll_rejected now err s) = Fired"
  by (simp_all add: fire_timers_def poll_rejected_def triggerDown_def)

lemma down_marks_not_running: "\<not> isRunning (emit ''down'' args s)"
  by (simp add: isRunning_emit)

text \<open>
  C1. On the sample wallet (polling interval 10 seconds, three polling failures allowed)
  a single failed polling cycle emits \<open>error\<close> and sets the down timer, which is set for
  \<open>pollingInterval * maxPollingFailures\<close> = 30 milliseconds. It fires 30 milliseconds
  after that one failure, long before a second polling cycle can fail: \<open>down\<close> is
  emitted once after one failure out of three, and the process is marked not running.
\<close>

theorem C1_down_after_one_failure:
  "pollingInterval wallet = 10
   \<and> maxPollingFailures wallet = 3
   \<and> trigger (poll_rejected 22000 ''timeout'' wallet) = Pending 22030
   \<and> filter (is_emit ''error'') (trace one_failure) =
       [Emit ''error'' [JStr ''Error retrieving wallet status: timeout'']]
   \<and> filter (is_emit ''down'') (trace one_failure) = [Emit ''down'' []]
   \<and> \<not> isRunning one_failure"
  by (simp add: one_failure_def wallet_fields monitor_run_def poll_step_def fire_timers_def
        poll_resolved_def poll_rejected_def triggerUp_def triggerDown_def timer_delay_def
        Let_def trace_emit isRunning_emit status_synced_def relay_wallet)

text \<open>
  C6. The \<open>synced\<close> signal is edge-triggered. A polling cycle that succeeds with
  \<open>blockCount\<close> equal to \<open>knownBlockCount\<close> or to \<open>knownBlockCount - 1\<close>, in a state
  that is not synced, emits \<open>synced\<close> exactly once and leaves the state synced. A polling
  cycle that starts in a synced state emits no \<open>synced\<close>, whatever the reply is, and a
  failed cycle never emits it.
\<close>

theorem C6_synced_edge_triggered:
  "(\<not> synced s \<and> (r_blockCount r = r_knownBlockCount r
                   \<or> r_blockCount r = r_knownBlockCount r - 1) \<longrightarrow>
      length (filter (is_emit ''synced'') (emitted s (poll_resolved r s))) = 1
      \<and> synced (poll_resolved r s))
   \<and> (synced s \<longrightarrow> filter (is_emit ''synced'') (emitted s (poll_resolved r s)) = [])
   \<and> filter (is_emit ''synced'') (emitted s (poll_rejected now err s)) = []"
  by (auto simp: emitted_def poll_resolved_def poll_rejected_def triggerUp_def
        triggerDown_def Let_def trace_emit)

theorem C6_synced_edge_triggered_witness:
  "\<not> synced wallet
   \<and> r_blockCount status_synced = r_knownBlockCount status_synced
   \<and> length (filter (is_emit ''synced'') (emitted wallet (poll_resolved status_synced wallet))) = 1
   \<and> synced (poll_resolved status_synced wallet)
   \<and> filter (is_emit ''synced'')
        (emitted (poll_resolved status_synced wallet)
           (poll_resolved status_synced (poll_resolved status_synced wallet))) = []"
proof -
  have unsynced: "\<not> synced wallet"
    by (simp add: wallet_def ZumService_def setupWebSocket_def)
  have tip: "r_blockCount status_synced = r_knownBlockCount status_synced"
    by (simp add: status_synced_def)
  from C6_synced_edge_triggered [of wallet status_synced] unsynced tip
  have first: "length (filter (is_emit ''synced'')
                 (emitted wallet (poll_resolved status_synced wallet))) = 1
               \<and> synced (poll_resolved status_synced wallet)"
    by blast
  with C6_synced_edge_triggered [of "poll_resolved status_synced wallet" status_synced]
  have "filter (is_emit ''synced'')
          (emitted (poll_resolved status_synced wallet)
             (poll_resolved status_synced (poll_resolved status_synced wallet))) = []"
    by blast
  with unsynced tip first show ?thesis by blast
qed

text \<open>
  C7. After a polling cycle that succeeds, the \<open>knownBlockCount\<close> of the process state
  is the \<open>blockCount\<close> field of the reply, not its \<open>knownBlockCount\<close> field: for the
  reply with \<open>blockCount\<close> 4000 and \<open>knownBlockCount\<close> 4432 the state of the sample
  wallet holds 4000.
\<close>

theorem C7_state_takes_blockCount:
  "knownBlockCount (poll_resolved r s) = r_blockCount r
   \<and> r_knownBlockCount status_behind = 4432
   \<and> knownBlockCount (poll_resolved status_behind wallet) = 4000"
  by (simp add: poll_resolved_def triggerUp_def Let_def status_behind_def)

section \<open>Console output\<close>

text \<open>
  C2. A console line that contains the wrong-password marker, and not the
  \<open>Loading container\<close> marker that is tested before it, makes the supervisor emit exactly
  four \<open>error\<close> signals and then end the supervising process with exit code 1; nothing
  is retried, since no later input changes the state any more.
\<close>

theorem C2_wrong_password_four_errors:
  assumes "sublist ''The password is wrong'' line"
    and "\<not> sublist ''Loading container'' line"
  shows "filter (\<lambda>e. is_emit ''error'' e \<or> is_exit e) (emitted s (stdio line s)) =
           [Emit ''error'' [JStr ''************************************************''],
            Emit ''error'' [JStr ''THE PASSWORD FOR THE WALLET CONTAINER IS INVALID''],
            Emit ''error'' [JStr ''HALTING THE SERVICE DUE TO ERROR''],
            Emit ''error'' [JStr ''************************************************''],
            ProcessExit 1]
         \<and> halted (stdio line s)
         \<and> (\<forall>i. step h (stdio line s) i = stdio line s)"
proof -
  from assms have found: "indexOf line ''The password is wrong'' \<noteq> - 1"
    and first: "indexOf line ''Loading container'' = - 1"
    using indexOf_sublist by blast+
  have ended: "halted (stdio line s)"
    using found first by (simp add: stdio_def Let_def)
  have "filter (\<lambda>e. is_emit ''error'' e \<or> is_exit e) (emitted s (stdio line s)) =
           [Emit ''error'' [JStr ''************************************************''],
            Emit ''error'' [JStr ''THE PASSWORD FOR THE WALLET CONTAINER IS INVALID''],
            Emit ''error'' [JStr ''HALTING THE SERVICE DUE TO ERROR''],
            Emit ''error'' [JStr ''************************************************''],
            ProcessExit 1]"
    using found first by (simp add: stdio_def Let_def emitted_def trace_emit filter_relay)
  with ended show ?thesis by (simp add: step_halted)
qed

theorem C2_wrong_password_four_errors_witness:
  "sublist ''The password is wrong'' ''Error: The password is wrong''
   \<and> \<not> sublist ''Loading container'' ''Error: The password is wrong''
   \<and> filter (\<lambda>e. is_emit ''error'' e \<or> is_exit e)
        (emitted wallet (stdio ''Error: The password is wrong'' wallet)) =
       [Emit ''error'' [JStr ''************************************************''],
        Emit ''error'' [JStr ''THE PASSWORD FOR THE WALLET CONTAINER IS INVALID''],
        Emit ''error'' [JStr ''HALTING THE SERVICE DUE TO ERROR''],
        Emit ''error'' [JStr ''************************************************''],
        ProcessExit 1]
   \<and> halted (stdio ''Error: The password is wrong'' wallet)
   \<and> step host0 (stdio ''Error: The password is wrong'' wallet) Start =
       stdio ''Error: The password is wrong'' wallet"
proof -
  have marker: "sublist ''The password is wrong'' ''Error: The password is wrong''"
    unfolding indexOf_sublist [symmetric] by (simp add: indexOf_def)
  have other: "\<not> sublist ''Loading container'' ''Error: The password is wrong''"
    unfolding indexOf_sublist [symmetric] by (simp add: indexOf_def)
  from C2_wrong_password_four_errors [OF marker other, of wallet host0] marker other
  show ?thesis by blast
qed

text \<open>
  The number of \<open>error\<close> signals for the line \<open>The password is wrong\<close> is not three.
\<close>

theorem C2_three_errors_counterexample:
  "length (filter (is_emit ''error'')
     (emitted wallet (stdio ''The password is wrong'' wallet))) \<noteq> 3"
  by (simp add: stdio_def indexOf_def Let_def emitted_def trace_emit)

section \<open>Fan-out to the gateway\<close>

text \<open>
  Eleven of the twelve signals are broadcast under their own name, and a broadcast goes to
  every permitted client and to nobody else.
\<close>

lemma fanout_own_name:
  assumes "name \<in> set [''alive'', ''close'', ''data'', ''down'', ''error'', ''info'', ''save'',
                        ''scan'', ''status'', ''synced'', ''transaction'']"
  shows "\<exists>d. fanout name args = Some (name, d)"
  using assms by (auto simp: fanout_def)

lemma relay_permitted_only:
  assumes "SockEmit k ev d \<in> set (relay name args s)"
  shows "\<exists>ws. webSocket s = Some ws \<and> k \<in> set (permittedClients ws)"
  using assms
  by (cases "webSocket s"; cases "fanout name args")
     (auto simp: relay_def broadcast_def Let_def split: if_splits)

lemma relay_every_permitted:
  assumes "webSocket s = Some ws" and "fanout name args = Some (ev, d)"
  shows "relay name args s = map (\<lambda>k. SockEmit k ev (js_or d (JObj []))) (permittedClients ws)"
  using assms by (auto simp: relay_def broadcast_def Let_def fanout_def split: if_splits)

text \<open>
  C3. With the connection \<open>a\<close> authenticated and the connection \<open>b\<close> not, a \<open>warning\<close>
  signal of the service reaches \<open>a\<close> under the event name \<open>info\<close>, not \<open>warning\<close>;
  \<open>b\<close> receives nothing.
\<close>

theorem C3_warning_broadcast_as_info:
  "emitted clients (emit ''warning'' [JStr ''No wallet container password defined''] clients) =
     [Emit ''warning'' [JStr ''No wallet container password defined''],
      SockEmit ''a'' ''info'' (JStr ''No wallet container password defined'')]"
  by (simp add: emitted_def trace_emit relay_def clients_ws fanout_def broadcast_def arg_def
        js_or_def)

section \<open>Starting\<close>

text \<open>What \<open>_buildargs\<close> adds to the trace, and whether it returns arguments.\<close>

lemma buildargs_container_refuse:
  assumes "\<not> (str_truthy (containerFile s) \<and> existsSync h (str_of (containerFile s)))"
  shows "snd (buildargs_container h s a) = None"
    and "filter (is_emit ''error'') (emitted s (fst (buildargs_container h s a))) \<noteq> []"
    and "filter is_spawn (emitted s (fst (buildargs_container h s a))) = []"
    and "child (fst (buildargs_container h s a)) = child s"
    and "trace (fst (buildargs_container h s a)) =
           trace s @ emitted s (fst (buildargs_container h s a))"
  using assms by (auto simp: buildargs_container_def emitted_def trace_emit)

lemma buildargs_container_accept:
  assumes "str_truthy (containerFile s)" and "existsSync h (str_of (containerFile s))"
  shows "snd (buildargs_container h s a) \<noteq> None"
    and "filter (is_emit ''error'') (emitted s (fst (buildargs_container h s a))) = []"
    and "filter is_spawn (emitted s (fst (buildargs_container h s a))) = []"
    and "child (fst (buildargs_container h s a)) = child s"
    and "trace (fst (buildargs_container h s a)) =
           trace s @ emitted s (fst (buildargs_container h s a))"
  using assms
  by (cases "str_truthy (containerPassword s)";
      simp add: buildargs_container_def Let_def emitted_def trace_emit split del: if_split)+

lemma buildargs_refuse:
  assumes "\<not> config_ok h s"
  shows "snd (buildargs h s) = None"
    and "filter (is_emit ''error'') (emitted s (fst (buildargs h s))) \<noteq> []"
    and "filter is_spawn (emitted s (fst (buildargs h s))) = []"
    and "child (fst (buildargs h s)) = child s"
    and "trace (fst (buildargs h s)) = trace s @ emitted s (fst (buildargs h s))"
proof -
  consider (pw) "str_truthy (rpcPassword s)"
    | (legacy) "\<not> str_truthy (rpcPassword s)" "rpcLegacySecurity s"
    | (none) "\<not> str_truthy (rpcPassword s)" "\<not> rpcLegacySecurity s"
    by blast
  then have "snd (buildargs h s) = None
    \<and> filter (is_emit ''error'') (emitted s (fst (buildargs h s))) \<noteq> []
    \<and> filter is_spawn (emitted s (fst (buildargs h s))) = []
    \<and> child (fst (buildargs h s)) = child s
    \<and> trace (fst (buildargs h s)) = trace s @ emitted s (fst (buildargs h s))"
  proof cases
    case pw
    with assms have "\<not> (str_truthy (containerFile s) \<and> existsSync h (str_of (containerFile s)))"
      by (simp add: config_ok_def)
    from buildargs_container_refuse [OF this] pw show ?thesis
      by (simp add: buildargs_def Let_def split del: if_split)
  next
    case legacy
    with assms have "\<not> (str_truthy (containerFile s) \<and> existsSync h (str_of (containerFile s)))"
      by (simp add: config_ok_def)
    from buildargs_container_refuse [OF this] legacy show ?thesis
      by (simp add: buildargs_def Let_def split del: if_split)
  next
    case none
    then show ?thesis
      by (simp add: buildargs_def Let_def emitted_def trace_emit split del: if_split)
  qed
  then show "snd (buildargs h s) = None"
    and "filter (is_emit ''error'') (emitted s (fst (buildargs h s))) \<noteq> []"
    and "filter is_spawn (emitted s (fst (buildargs h s))) = []"
    and "child (fst (buildargs h s)) = child s"
    and "trace (fst (buildargs h s)) = trace s @ emitted s (fst (buildargs h s))"
    by simp_all
qed

lemma buildargs_accept:
  assumes "config_ok h s"
  shows "snd (buildargs h s) \<noteq> None"
    and "filter (is_emit ''error'') (emitted s (fst (buildargs h s))) = []"
    and "filter is_spawn (emitted s (fst (buildargs h s))) = []"
    and "trace (fst (buildargs h s)) = trace s @ emitted s (fst (buildargs h s))"
proof -
  from assms have cf: "str_truthy (containerFile s)" "existsSync h (str_of (containerFile s))"
    and cred: "str_truthy (rpcPassword s) \<or> rpcLegacySecurity s"
    by (simp_all add: config_ok_def)
  from cred have "\<exists>a. buildargs h s = buildargs_container h s a"
    by (cases "str_truthy (rpcPassword s)") (auto simp: buildargs_def Let_def split del: if_split)
  then obtain a where "buildargs h s = buildargs_container h s a" ..
  with buildargs_container_accept [OF cf, of a]
  show "snd (buildargs h s) \<noteq> None"
    and "filter (is_emit ''error'') (emitted s (fst (buildargs h s))) = []"
    and "filter is_spawn (emitted s (fst (buildargs h s))) = []"
    and "trace (fst (buildargs h s)) = trace s @ emitted s (fst (buildargs h s))"
    by simp_all
qed

lemma config_ok_upd [simp]:
  "config_ok h (emit name args s) = config_ok h s"
  "config_ok h (s\<lparr>synced := b\<rparr>) = config_ok h s"
  by (simp_all add: config_ok_def emit_def out_def Let_def)

lemma start_refuse:
  assumes "\<not> config_ok h s"
  shows "filter (is_emit ''error'') (emitted s (start h s)) \<noteq> []
         \<and> filter is_spawn (emitted s (start h s)) = []
         \<and> child (start h s) = child s"
proof -
  define s2 where
    "s2 = (emit ''info'' [JStr ''Attempting to start zum-service...''] s)\<lparr>synced := False\<rparr>"
  from assms have no: "\<not> config_ok h s2" by (simp add: s2_def)
  obtain s3 r where b: "buildargs h s2 = (s3, r)" by (cases "buildargs h s2")
  from buildargs_refuse [OF no] b
  have r: "r = None" and e: "filter (is_emit ''error'') (emitted s2 s3) \<noteq> []"
    and sp: "filter is_spawn (emitted s2 s3) = []" and c: "child s3 = child s2"
    and t: "trace s3 = trace s2 @ emitted s2 s3"
    by simp_all
  have st: "start h s =
      emit ''error''
        [JStr ''Could not build the zum-service arguments... please check your config and try again'']
        s3"
    using b r by (simp add: start_def Let_def s2_def)
  have t2: "trace s2 =
      trace s @ Emit ''info'' [JStr ''Attempting to start zum-service...'']
        # relay ''info'' [JStr ''Attempting to start zum-service...''] s"
    by (simp add: s2_def trace_emit)
  have "emitted s (start h s) =
      (Emit ''info'' [JStr ''Attempting to start zum-service...'']
         # relay ''info'' [JStr ''Attempting to start zum-service...''] s)
      @ emitted s2 s3
      @ Emit ''error''
          [JStr ''Could not build the zum-service arguments... please check your config and try again'']
        # relay ''error''
            [JStr ''Could not build the zum-service arguments... please check your config and try again'']
            s3"
    unfolding st by (simp add: emitted_def [of s] trace_emit t t2)
  with e sp c show ?thesis
    by (simp add: st s2_def)
qed

lemma start_accept:
  assumes "config_ok h s"
  shows "filter (is_emit ''error'') (emitted s (start h s)) = []
         \<and> length (filter is_spawn (emitted s (start h s))) = 1
         \<and> child (start h s)"
proof -
  define s2 where
    "s2 = (emit ''info'' [JStr ''Attempting to start zum-service...''] s)\<lparr>synced := False\<rparr>"
  from assms have ok: "config_ok h s2" by (simp add: s2_def)
  obtain s3 r where b: "buildargs h s2 = (s3, r)" by (cases "buildargs h s2")
  from buildargs_accept [OF ok] b
  have "r \<noteq> None" and e: "filter (is_emit ''error'') (emitted s2 s3) = []"
    and sp: "filter is_spawn (emitted s2 s3) = []"
    and t: "trace s3 = trace s2 @ emitted s2 s3"
    by simp_all
  then obtain args where r: "r = Some args" by blast
  have st: "start h s =
      emit ''start'' [JStr (path s3 @ join '' '' args)]
        (out [Spawn (path s3) args] (s3\<lparr>child := True\<rparr>))"
    using b r by (simp add: start_def Let_def s2_def)
  have t2: "trace s2 =
      trace s @ Emit ''info'' [JStr ''Attempting to start zum-service...'']
        # relay ''info'' [JStr ''Attempting to start zum-service...''] s"
    by (simp add: s2_def trace_emit)
  have "emitted s (start h s) =
      (Emit ''info'' [JStr ''Attempting to start zum-service...'']
         # relay ''info'' [JStr ''Attempting to start zum-service...''] s)
      @ emitted s2 s3
      @ Spawn (path s3) args # Emit ''start'' [JStr (path s3 @ join '' '' args)]
        # relay ''start'' [JStr (path s3 @ join '' '' args)] s3"
    unfolding st by (simp add: emitted_def [of s] trace_emit t t2)
  with e sp show ?thesis
    by (simp add: st)
qed

lemma buildargs_container_args:
  assumes "str_truthy (containerFile s)" and "existsSync h (str_of (containerFile s))"
  shows "snd (buildargs_container h s a) =
           Some (split_char CHR '' ''
                   (a @ '' --container-file '' @ str_of (containerFile s) @ container_tail s))"
  using assms
  by (cases "str_truthy (containerPassword s)"; cases "str_truthy (logFile s)";
      cases "syncFromZero s"; cases "daemonRpcAddress s = []"; cases "daemonRpcPort s = 0";
      simp add: buildargs_container_def container_tail_def Let_def split del: if_split)

lemma buildargs_args:
  assumes "config_ok h s"
  shows "snd (buildargs h s) =
           Some (split_char CHR '' ''
                   (bind_args s @ credential_args s @ '' --container-file ''
                    @ str_of (containerFile s) @ container_tail s))"
proof -
  from assms have cf: "str_truthy (containerFile s)" "existsSync h (str_of (containerFile s))"
    and cred: "str_truthy (rpcPassword s) \<or> rpcLegacySecurity s"
    by (simp_all add: config_ok_def)
  show ?thesis
  proof (cases "str_truthy (rpcPassword s)")
    case True
    then show ?thesis
      by (cases "str_truthy (config s)";
          simp add: buildargs_def Let_def buildargs_container_args [OF cf] bind_args_def
            credential_args_def split del: if_split)
  next
    case False
    with cred have "rpcLegacySecurity s" by simp
    with False show ?thesis
      by (cases "str_truthy (config s)";
          simp add: buildargs_def Let_def buildargs_container_args [OF cf] bind_args_def
            credential_args_def split del: if_split)
  qed
qed

lemma args_upd [simp]:
  "bind_args (emit name args s) = bind_args s"
  "bind_args (s\<lparr>synced := b\<rparr>) = bind_args s"
  "credential_args (emit name args s) = credential_args s"
  "credential_args (s\<lparr>synced := b\<rparr>) = credential_args s"
  "container_tail (emit name args s) = container_tail s"
  "container_tail (s\<lparr>synced := b\<rparr>) = container_tail s"
  "containerFile (emit name args s) = containerFile s"
  by (simp_all add: bind_args_def credential_args_def container_tail_def emit_def out_def Let_def)

lemma path_buildargs_container: "path (fst (buildargs_container h s a)) = path s"
  by (cases "str_truthy (containerFile s)"; cases "existsSync h (str_of (containerFile s))";
      cases "str_truthy (containerPassword s)";
      simp add: buildargs_container_def Let_def split del: if_split)

lemma path_buildargs: "path (fst (buildargs h s)) = path s"
  by (cases "str_truthy (rpcPassword s)"; cases "rpcLegacySecurity s";
      simp add: buildargs_def Let_def path_buildargs_container split del: if_split)

lemma start_accept_spawn:
  assumes "config_ok h s"
  shows "filter is_spawn (emitted s (start h s)) =
           [Spawn (path s)
              (split_char CHR '' ''
                 (bind_args s @ credential_args s @ '' --container-file ''
                  @ str_of (containerFile s) @ container_tail s))]"
proof -
  define s2 where
    "s2 = (emit ''info'' [JStr ''Attempting to start zum-service...''] s)\<lparr>synced := False\<rparr>"
  from assms have ok: "config_ok h s2" by (simp add: s2_def)
  obtain s3 r where b: "buildargs h s2 = (s3, r)" by (cases "buildargs h s2")
  from buildargs_accept [OF ok] b
  have sp: "filter is_spawn (emitted s2 s3) = []"
    and t: "trace s3 = trace s2 @ emitted s2 s3"
    by simp_all
  from buildargs_args [OF ok] b
  have r: "r = Some (split_char CHR '' ''
                 (bind_args s @ credential_args s @ '' --container-file ''
                  @ str_of (containerFile s) @ container_tail s))"
    by (simp add: s2_def)
  from path_buildargs [of h s2] b have p: "path s3 = path s" by (simp add: s2_def)
  define args where "args = split_char CHR '' ''
                 (bind_args s @ credential_args s @ '' --container-file ''
                  @ str_of (containerFile s) @ container_tail s)"
  have st: "start h s =
      emit ''start'' [JStr (path s3 @ join '' '' args)]
        (out [Spawn (path s3) args] (s3\<lparr>child := True\<rparr>))"
    using b r by (simp add: start_def Let_def s2_def args_def)
  have t2: "trace s2 =
      trace s @ Emit ''info'' [JStr ''Attempting to start zum-service...'']
        # relay ''info'' [JStr ''Attempting to start zum-service...''] s"
    by (simp add: s2_def trace_emit)
  have "emitted s (start h s) =
      (Emit ''info'' [JStr ''Attempting to start zum-service...'']
         # relay ''info'' [JStr ''Attempting to start zum-service...''] s)
      @ emitted s2 s3
      @ Spawn (path s3) args # Emit ''start'' [JStr (path s3 @ join '' '' args)]
        # relay ''start'' [JStr (path s3 @ join '' '' args)] s3"
    unfolding st by (simp add: emitted_def [of s] trace_emit t t2)
  with sp p show ?thesis
    by (simp add: args_def)
qed

text \<open>The argument list of the sample installation with both credentials.\<close>

lemma digit_chars:
  "digit_char 0 = CHR ''0''" "digit_char 1 = CHR ''1''" "digit_char 2 = CHR ''2''"
  "digit_char 3 = CHR ''3''" "digit_char 4 = CHR ''4''" "digit_char 5 = CHR ''5''"
  "digit_char 6 = CHR ''6''" "digit_char 7 = CHR ''7''" "digit_char 8 = CHR ''8''"
  "digit_char 9 = CHR ''9''" "digit_char (Suc 0) = CHR ''1''"
proof -
  have "char_of (of_char c :: nat) = c" for c by simp
  from this [of "CHR ''0''"] this [of "CHR ''1''"] this [of "CHR ''2''"] this [of "CHR ''3''"]
    this [of "CHR ''4''"] this [of "CHR ''5''"] this [of "CHR ''6''"] this [of "CHR ''7''"]
    this [of "CHR ''8''"] this [of "CHR ''9''"]
  show "digit_char 0 = CHR ''0''" "digit_char 1 = CHR ''1''" "digit_char 2 = CHR ''2''"
    "digit_char 3 = CHR ''3''" "digit_char 4 = CHR ''4''" "digit_char 5 = CHR ''5''"
    "digit_char 6 = CHR ''6''" "digit_char 7 = CHR ''7''" "digit_char 8 = CHR ''8''"
    "digit_char 9 = CHR ''9''" "digit_char (Suc 0) = CHR ''1''"
    by (simp_all add: digit_char_def)
qed

lemma show_int_sample:
  "show_int 17070 = ''17070''" "show_int 17935 = ''17935''" "show_int 4 = ''4''"
  by (simp_all add: show_int_def digit_chars)


lemma both_args:
  "split_char CHR '' ''
     (bind_args both_credentials @ credential_args both_credentials @ '' --container-file ''
      @ str_of (containerFile both_credentials) @ container_tail both_credentials) =
   ['''', ''--bind-address'', ''127.0.0.1'', ''--bind-port'', ''17070'',
    ''--rpc-password'', ''changeme'', ''--container-file'', ''./container.walletd'',
    ''--log-file'', ''./zum-service.log'', ''--log-level'', ''4'',
    ''--daemon-address'', ''127.0.0.1'', ''--daemon-port'', ''17935'']"
  by (simp add: both_credentials_def bind_args_def credential_args_def container_tail_def
        ctor_defs str_truthy_def str_of_def show_int_sample)

text \<open>
  C8. \<open>start()\<close> validates the configuration before it spawns: it requires an RPC
  password or the legacy mode (at least one of them), and a container file that is
  defined and exists. For every configuration that violates this it emits \<open>error\<close> and
  returns without spawning. For every other configuration it emits no \<open>error\<close> and
  spawns the child once, with the argument string split at its spaces; in that string
  the RPC credential is the password whenever there is one, also when the legacy mode is
  set as well, and the legacy flag otherwise.
\<close>

theorem C8_start_validates:
  "(\<not> config_ok h s \<longrightarrow>
      filter (is_emit ''error'') (emitted s (start h s)) \<noteq> []
      \<and> filter is_spawn (emitted s (start h s)) = []
      \<and> child (start h s) = child s)
   \<and> (config_ok h s \<longrightarrow>
      filter (is_emit ''error'') (emitted s (start h s)) = []
      \<and> filter is_spawn (emitted s (start h s)) =
          [Spawn (path s)
             (split_char CHR '' ''
                (bind_args s @ credential_args s @ '' --container-file ''
                 @ str_of (containerFile s) @ container_tail s))]
      \<and> child (start h s))"
  using start_refuse [of h s] start_accept [of h s] start_accept_spawn [of h s] by blast

theorem C8_start_validates_witness:
  "config_ok host0 wallet
   \<and> filter (is_emit ''error'') (emitted wallet (start host0 wallet)) = []
   \<and> length (filter is_spawn (emitted wallet (start host0 wallet))) = 1
   \<and> child (start host0 wallet)
   \<and> \<not> config_ok host0 unconfigured
   \<and> filter (is_emit ''error'') (emitted unconfigured (start host0 unconfigured)) \<noteq> []
   \<and> filter is_spawn (emitted unconfigured (start host0 unconfigured)) = []
   \<and> \<not> child (start host0 unconfigured)"
proof -
  have a: "config_ok host0 wallet"
    by (simp add: config_ok_def ctor_defs str_truthy_def str_of_def)
  have b: "\<not> config_ok host0 unconfigured"
    by (simp add: unconfigured_def config_ok_def ctor_defs str_truthy_def str_of_def)
  have c: "\<not> child unconfigured"
    by (simp add: unconfigured_def ctor_defs)
  from C8_start_validates [of host0 wallet] C8_start_validates [of host0 unconfigured] a b c
  show ?thesis by simp
qed

text \<open>
  With an RPC password and the legacy mode both configured, which is not exactly one of
  them, \<open>start()\<close> emits no \<open>error\<close> and spawns the child, and the arguments carry the
  password.
\<close>

theorem C8_both_credentials_counterexample:
  "str_truthy (rpcPassword both_credentials)
   \<and> rpcLegacySecurity both_credentials
   \<and> filter (is_emit ''error'') (emitted both_credentials (start host0 both_credentials)) = []
   \<and> filter is_spawn (emitted both_credentials (start host0 both_credentials)) =
       [Spawn ''./zum-service''
          ['''', ''--bind-address'', ''127.0.0.1'', ''--bind-port'', ''17070'',
           ''--rpc-password'', ''changeme'', ''--container-file'', ''./container.walletd'',
           ''--log-file'', ''./zum-service.log'', ''--log-level'', ''4'',
           ''--daemon-address'', ''127.0.0.1'', ''--daemon-port'', ''17935'']]
   \<and> child (start host0 both_credentials)"
proof -
  have cred: "str_truthy (rpcPassword both_credentials)" "rpcLegacySecurity both_credentials"
    and ok: "config_ok host0 both_credentials"
    and p: "path both_credentials = ''./zum-service''"
    by (simp_all add: both_credentials_def config_ok_def ctor_defs str_truthy_def str_of_def)
  have "filter is_spawn (emitted both_credentials (start host0 both_credentials)) =
       [Spawn ''./zum-service''
          ['''', ''--bind-address'', ''127.0.0.1'', ''--bind-port'', ''17070'',
           ''--rpc-password'', ''changeme'', ''--container-file'', ''./container.walletd'',
           ''--log-file'', ''./zum-service.log'', ''--log-level'', ''4'',
           ''--daemon-address'', ''127.0.0.1'', ''--daemon-port'', ''17935'']]"
    by (simp only: start_accept_spawn [OF ok] both_args p)
  with cred start_accept [OF ok] show ?thesis
    by blast
qed

section \<open>Scan loop\<close>

lemma scan_tick_request:
  assumes "synced s" and "cursor s < knownBlockCount s"
  shows "snd (scan_tick s) =
           Some (cursor s,
                 if cursor s + spec_batch (knownBlockCount s - cursor s) > knownBlockCount s
                 then knownBlockCount s - cursor s - 1
                 else spec_batch (knownBlockCount s - cursor s))"
  using assms by (simp add: scan_tick_def cursor_def spec_batch_def Let_def)

lemma scan_tick_idle:
  "\<not> synced s \<or> knownBlockCount s \<le> cursor s \<Longrightarrow> scan_tick s = (s, None)"
  by (auto simp: scan_tick_def cursor_def Let_def)

lemma scan_tick_effects:
  assumes "snd (scan_tick s) = Some (first, batch)"
  shows "emitted s (fst (scan_tick s)) =
           Emit ''scan'' [JNum first, JNum (first + batch)]
           # relay ''scan'' [JNum first, JNum (first + batch)] s
           @ [Rpc ''getTransactions''
                (JObj [(''firstBlockIndex'', JNum first), (''blockCount'', JNum batch)])]"
    and "scanHeight (fst (scan_tick s)) = scanHeight s"
    and "synced (fst (scan_tick s)) = synced s"
    and "knownBlockCount (fst (scan_tick s)) = knownBlockCount s"
    and "webSocket (fst (scan_tick s)) = webSocket s"
  using assms
  by (auto simp: scan_tick_def Let_def emitted_def trace_emit split: if_splits)

text \<open>
  C4. A scan tick of a synced service whose cursor is below the known block count asks
  for the range that starts at the cursor and has the batch size of the step function
  (1000 for a backlog above 100, else 10 for a backlog above 10, else 1), replaced by the
  backlog minus one where the step would pass the known block count. The batch is at least
  1, at most the step and at most the backlog, so the range ends at or below the known
  block count. For the backlogs 5, 50 and 500 the steps are 1, 10 and 1000. When the
  cursor has reached the known block count, or the service is not synced, the tick does
  nothing.
\<close>

theorem C4_batch_size:
  "(synced s \<and> cursor s < knownBlockCount s \<longrightarrow>
      (let backlog = knownBlockCount s - cursor s;
           batch = (if cursor s + spec_batch backlog > knownBlockCount s then backlog - 1
                    else spec_batch backlog)
       in snd (scan_tick s) = Some (cursor s, batch)
          \<and> Rpc ''getTransactions''
               (JObj [(''firstBlockIndex'', JNum (cursor s)), (''blockCount'', JNum batch)])
             \<in> set (emitted s (fst (scan_tick s)))
          \<and> 1 \<le> batch \<and> batch \<le> spec_batch backlog \<and> batch \<le> backlog
          \<and> cursor s + batch \<le> knownBlockCount s))
   \<and> (knownBlockCount s \<le> cursor s \<longrightarrow> scan_tick s = (s, None))
   \<and> (\<not> synced s \<longrightarrow> scan_tick s = (s, None))
   \<and> spec_batch 5 = 1 \<and> spec_batch 50 = 10 \<and> spec_batch 500 = 1000"
proof -
  have idle: "(knownBlockCount s \<le> cursor s \<longrightarrow> scan_tick s = (s, None))
      \<and> (\<not> synced s \<longrightarrow> scan_tick s = (s, None))"
    using scan_tick_idle [of s] by blast
  have steps: "spec_batch 5 = 1 \<and> spec_batch 50 = 10 \<and> spec_batch 500 = 1000"
    by (simp add: spec_batch_def)
  have "synced s \<and> cursor s < knownBlockCount s \<longrightarrow>
      (let backlog = knownBlockCount s - cursor s;
           batch = (if cursor s + spec_batch backlog > knownBlockCount s then backlog - 1
                    else spec_batch backlog)
       in snd (scan_tick s) = Some (cursor s, batch)
          \<and> Rpc ''getTransactions''
               (JObj [(''firstBlockIndex'', JNum (cursor s)), (''blockCount'', JNum batch)])
             \<in> set (emitted s (fst (scan_tick s)))
          \<and> 1 \<le> batch \<and> batch \<le> spec_batch backlog \<and> batch \<le> backlog
          \<and> cursor s + batch \<le> knownBlockCount s)"
  proof
    assume a: "synced s \<and> cursor s < knownBlockCount s"
    define batch where
      "batch = (if cursor s + spec_batch (knownBlockCount s - cursor s) > knownBlockCount s
                then knownBlockCount s - cursor s - 1
                else spec_batch (knownBlockCount s - cursor s))"
    from a have req: "snd (scan_tick s) = Some (cursor s, batch)"
      by (simp add: scan_tick_request batch_def)
    have bounds: "1 \<le> batch \<and> batch \<le> spec_batch (knownBlockCount s - cursor s)
        \<and> batch \<le> knownBlockCount s - cursor s \<and> cursor s + batch \<le> knownBlockCount s"
      using a by (auto simp: batch_def spec_batch_def split: if_splits)
    from scan_tick_effects(1) [OF req] req bounds
    show "(let backlog = knownBlockCount s - cursor s;
           batch = (if cursor s + spec_batch backlog > knownBlockCount s then backlog - 1
                    else spec_batch backlog)
       in snd (scan_tick s) = Some (cursor s, batch)
          \<and> Rpc ''getTransactions''
               (JObj [(''firstBlockIndex'', JNum (cursor s)), (''blockCount'', JNum batch)])
             \<in> set (emitted s (fst (scan_tick s)))
          \<and> 1 \<le> batch \<and> batch \<le> spec_batch backlog \<and> batch \<le> backlog
          \<and> cursor s + batch \<le> knownBlockCount s)"
      by (simp add: Let_def batch_def)
  qed
  with idle steps show ?thesis by blast
qed

theorem C4_batch_size_witness:
  "synced (backlog_of 5) \<and> cursor (backlog_of 5) < knownBlockCount (backlog_of 5)
   \<and> snd (scan_tick (backlog_of 5)) = Some (1, 1)
   \<and> snd (scan_tick (backlog_of 50)) = Some (1, 10)
   \<and> snd (scan_tick (backlog_of 500)) = Some (1, 499)
   \<and> scan_tick (backlog_of 0) = (backlog_of 0, None)"
  using C4_batch_size [of "backlog_of 5"] C4_batch_size [of "backlog_of 50"]
    C4_batch_size [of "backlog_of 500"] C4_batch_size [of "backlog_of 0"]
  by (simp add: backlog_fields Let_def spec_batch_def)

text \<open>A request is issued only for a range that starts at the cursor and is not empty.\<close>

lemma scan_tick_Some:
  assumes "snd (scan_tick s) = Some (first, batch)"
  shows "first = cursor s" and "1 \<le> batch" and "synced s" and "cursor s < knownBlockCount s"
  using assms by (auto simp: scan_tick_def cursor_def Let_def split: if_splits)

lemma transactions_trace:
  "trace (foldl (\<lambda>st t. emit ''transaction'' [t] st) s ts) =
     trace s @ concat (map (\<lambda>t. Emit ''transaction'' [t] # relay ''transaction'' [t] s) ts)"
  by (induction ts arbitrary: s) (simp_all add: trace_emit)

lemma transactions_fields [simp]:
  "scanHeight (foldl (\<lambda>st t. emit ''transaction'' [t] st) s ts) = scanHeight s"
  "synced (foldl (\<lambda>st t. emit ''transaction'' [t] st) s ts) = synced s"
  "knownBlockCount (foldl (\<lambda>st t. emit ''transaction'' [t] st) s ts) = knownBlockCount s"
  by (induction ts arbitrary: s) simp_all

lemma filter_transactions:
  "filter (\<lambda>e. is_emit ''transaction'' e \<or> is_put e)
     (concat (map (\<lambda>t. Emit ''transaction'' [t] # relay ''transaction'' [t] s) ts)) =
   map (\<lambda>t. Emit ''transaction'' [t]) ts"
  by (induction ts) (simp_all add: filter_relay)

lemma scan_resolved_effects:
  "filter (\<lambda>e. is_emit ''transaction'' e \<or> is_put e)
     (emitted s (scan_resolved (first, batch) ts s)) =
   map (\<lambda>t. Emit ''transaction'' [t]) ts @ [DbPut ''scanHeight'' (first + batch)]"
  "scanHeight (scan_resolved (first, batch) ts s) = Some (first + batch)"
  by (simp_all add: scan_resolved_def Let_def emitted_def transactions_trace filter_transactions)

lemma scan_rejected_effects:
  "filter is_put (emitted s (scan_rejected req err s)) = []"
  "length (filter (is_emit ''error'') (emitted s (scan_rejected req err s))) = 1"
  "scanHeight (scan_rejected req err s) = scanHeight s"
  "synced (scan_rejected req err s) = synced s"
  "knownBlockCount (scan_rejected req err s) = knownBlockCount s"
  by (simp_all add: scan_rejected_def emitted_def trace_emit filter_relay)

lemma scan_tick_cong:
  "scanHeight s' = scanHeight s \<Longrightarrow> synced s' = synced s
   \<Longrightarrow> knownBlockCount s' = knownBlockCount s
   \<Longrightarrow> snd (scan_tick s') = snd (scan_tick s)"
  by (simp add: scan_tick_def Let_def)

lemma scan_tick_inflight: "inflight (fst (scan_tick s)) = inflight s"
  by (simp add: scan_tick_def Let_def)

lemma scan_tick_scanHeight: "scanHeight (fst (scan_tick s)) = scanHeight s"
  by (simp add: scan_tick_def Let_def)

lemma scan_interval_Some:
  assumes "snd (scan_tick s) = Some req"
  shows "scan_interval s = (fst (scan_tick s))\<lparr>inflight := inflight s @ [req]\<rparr>"
  using assms scan_tick_inflight [of s] by (cases "scan_tick s") (simp add: scan_interval_def)

lemma scan_interval_None:
  assumes "snd (scan_tick s) = None"
  shows "scan_interval s = s"
proof -
  have "scan_tick s = (s, None)"
    using assms by (auto simp: scan_tick_def Let_def split: if_splits)
  then show ?thesis by (simp add: scan_interval_def)
qed

lemma scan_settle_only:
  assumes "inflight s = [req]"
  shows "scan_settle 0 (Transactions ts) s = scan_resolved req ts (s\<lparr>inflight := []\<rparr>)"
    and "scan_settle 0 (ScanError err) s = scan_rejected req err (s\<lparr>inflight := []\<rparr>)"
  using assms by (simp_all add: scan_settle_def Let_def)

lemma scan_settlement_inflight:
  "inflight (scan_resolved req ts s) = inflight s"
  "inflight (scan_rejected req err s) = inflight s"
proof -
  have "inflight (foldl (\<lambda>st t. emit ''transaction'' [t] st) s ts) = inflight s" for s
    by (induction ts arbitrary: s) simp_all
  then show "inflight (scan_resolved req ts s) = inflight s"
    by (simp add: scan_resolved_def Let_def)
  show "inflight (scan_rejected req err s) = inflight s"
    by (simp add: scan_rejected_def)
qed

text \<open>No other step writes the stored scan height.\<close>

lemma scanHeight_buildargs_container:
  "scanHeight (fst (buildargs_container h s a)) = scanHeight s"
  by (cases "str_truthy (containerFile s)"; cases "existsSync h (str_of (containerFile s))";
      cases "str_truthy (containerPassword s)";
      simp add: buildargs_container_def Let_def split del: if_split)

lemma scanHeight_buildargs: "scanHeight (fst (buildargs h s)) = scanHeight s"
  by (cases "str_truthy (rpcPassword s)"; cases "rpcLegacySecurity s";
      simp add: buildargs_def Let_def scanHeight_buildargs_container split del: if_split)

lemma scanHeight_start: "scanHeight (start h s) = scanHeight s"
proof -
  define s2 where
    "s2 = (emit ''info'' [JStr ''Attempting to start zum-service...''] s)\<lparr>synced := False\<rparr>"
  obtain s3 r where b: "buildargs h s2 = (s3, r)" by (cases "buildargs h s2")
  with scanHeight_buildargs [of h s2] have "scanHeight s3 = scanHeight s"
    by (simp add: s2_def)
  with b show ?thesis
    by (cases r) (simp_all add: start_def Let_def s2_def)
qed

lemma scanHeight_on_line: "scanHeight (on_line s line) = scanHeight s"
  by (simp add: on_line_def stdio_def startChecks_def Let_def)

lemma scanHeight_lines: "scanHeight (foldl on_line s ls) = scanHeight s"
  by (induction ls arbitrary: s) (simp_all add: scanHeight_on_line)

lemma scanHeight_child:
  "scanHeight (on_data data s) = scanHeight s"
  "scanHeight (child_error err s) = scanHeight s"
  "scanHeight (child_close exitcode s) = scanHeight s"
  "scanHeight (addresses_resolved addresses s) = scanHeight s"
  "scanHeight (addresses_rejected err s) = scanHeight s"
  by (simp_all add: on_data_def scanHeight_lines child_error_def child_close_def
        addresses_resolved_def addresses_rejected_def)

lemma scanHeight_fire_timers: "scanHeight (fire_timers t s) = scanHeight s"
  by (simp add: fire_timers_def split: timer.splits)

lemma scanHeight_poll_step: "scanHeight (poll_step s ev) = scanHeight s"
  by (simp add: poll_step_def fire_timers_def poll_resolved_def poll_rejected_def
        triggerUp_def triggerDown_def Let_def split: poll.splits timer.splits)

lemma scanHeight_gateway:
  "scanHeight (ws_connection sock s) = scanHeight s"
  "scanHeight (ws_challenge sock pw s) = scanHeight s"
  "scanHeight (ws_auth_timeout sock s) = scanHeight s"
  "scanHeight (ws_disconnect sock s) = scanHeight s"
  by (simp_all add: ws_connection_def ws_challenge_def ws_auth_timeout_def ws_disconnect_def
        with_ws_def registerWebSocketClientEvents_def Let_def split: option.splits)

text \<open>Nor does any other step touch the requests in flight.\<close>

lemma inflight_buildargs_container:
  "inflight (fst (buildargs_container h s a)) = inflight s"
  by (cases "str_truthy (containerFile s)"; cases "existsSync h (str_of (containerFile s))";
      cases "str_truthy (containerPassword s)";
      simp add: buildargs_container_def Let_def split del: if_split)

lemma inflight_buildargs: "inflight (fst (buildargs h s)) = inflight s"
  by (cases "str_truthy (rpcPassword s)"; cases "rpcLegacySecurity s";
      simp add: buildargs_def Let_def inflight_buildargs_container split del: if_split)

lemma inflight_start: "inflight (start h s) = inflight s"
proof -
  define s2 where
    "s2 = (emit ''info'' [JStr ''Attempting to start zum-service...''] s)\<lparr>synced := False\<rparr>"
  obtain s3 r where b: "buildargs h s2 = (s3, r)" by (cases "buildargs h s2")
  with inflight_buildargs [of h s2] have "inflight s3 = inflight s"
    by (simp add: s2_def)
  with b show ?thesis
    by (cases r) (simp_all add: start_def Let_def s2_def)
qed

lemma inflight_on_line: "inflight (on_line s line) = inflight s"
  by (simp add: on_line_def stdio_def startChecks_def Let_def)

lemma inflight_lines: "inflight (foldl on_line s ls) = inflight s"
  by (induction ls arbitrary: s) (simp_all add: inflight_on_line)

lemma inflight_child:
  "inflight (on_data data s) = inflight s"
  "inflight (child_error err s) = inflight s"
  "inflight (child_close exitcode s) = inflight s"
  "inflight (addresses_resolved addresses s) = inflight s"
  "inflight (addresses_rejected err s) = inflight s"
  by (simp_all add: on_data_def inflight_lines child_error_def child_close_def
        addresses_resolved_def addresses_rejected_def)

lemma inflight_fire_timers: "inflight (fire_timers t s) = inflight s"
  by (simp add: fire_timers_def split: timer.splits)

lemma inflight_poll_step: "inflight (poll_step s ev) = inflight s"
  by (simp add: poll_step_def fire_timers_def poll_resolved_def poll_rejected_def
        triggerUp_def triggerDown_def Let_def split: poll.splits timer.splits)

lemma inflight_gateway:
  "inflight (ws_connection sock s) = inflight s"
  "inflight (ws_challenge sock pw s) = inflight s"
  "inflight (ws_auth_timeout sock s) = inflight s"
  "inflight (ws_disconnect sock s) = inflight s"
  "inflight (ws_ready s) = inflight s"
  by (simp_all add: ws_connection_def ws_challenge_def ws_auth_timeout_def ws_disconnect_def
        ws_ready_def with_ws_def registerWebSocketClientEvents_def Let_def split: option.splits)

lemma scanHeight_ready: "scanHeight (ws_ready s) = scanHeight s"
  by (simp add: ws_ready_def with_ws_def split: option.splits)

lemma step_elsewhere:
  assumes "i \<noteq> ScanTick" and "\<And>k r. i \<noteq> ScanSettle k r"
  shows "scanHeight (step h s i) = scanHeight s" and "inflight (step h s i) = inflight s"
proof -
  have "scanHeight (step h s i) = scanHeight s \<and> inflight (step h s i) = inflight s"
  proof (cases i)
    case (Save r)
    then show ?thesis
      by (cases r) (simp_all add: step_def save_resolved_def save_rejected_def)
  qed (use assms in \<open>simp_all add: step_def scanHeight_start scanHeight_child
         scanHeight_fire_timers scanHeight_poll_step scanHeight_gateway scanHeight_ready
         inflight_start inflight_child inflight_fire_timers inflight_poll_step
         inflight_gateway\<close>)
  then show "scanHeight (step h s i) = scanHeight s" and "inflight (step h s i) = inflight s"
    by simp_all
qed

lemma scan_inv_tick:
  assumes "inflight s = []"
  shows "scan_inv (scan_interval s)" and "cursor (scan_interval s) = cursor s"
proof -
  have "scan_inv (scan_interval s) \<and> cursor (scan_interval s) = cursor s"
  proof (cases "snd (scan_tick s)")
    case None
    with assms show ?thesis by (simp add: scan_interval_None scan_inv_def)
  next
    case (Some req)
    obtain first batch where req: "req = (first, batch)" by (cases req)
    from Some req scan_tick_Some [of s first batch]
    have fb: "first = cursor s" "1 \<le> batch" by simp_all
    from Some req assms fb show ?thesis
      by (simp add: scan_interval_Some scan_inv_def cursor_def scan_tick_scanHeight)
  qed
  then show "scan_inv (scan_interval s)" and "cursor (scan_interval s) = cursor s"
    by simp_all
qed

lemma scan_inv_settle:
  assumes "scan_inv s"
  shows "scan_inv (scan_settle k r s)" and "cursor s \<le> cursor (scan_settle k r s)"
proof -
  have "scan_inv (scan_settle k r s) \<and> cursor s \<le> cursor (scan_settle k r s)"
  proof (cases "inflight s = []")
    case True
    with assms show ?thesis by (simp add: scan_settle_def)
  next
    case False
    with assms obtain b where fl: "inflight s = [(cursor s, b)]" and b: "1 \<le> b"
      by (auto simp: scan_inv_def)
    show ?thesis
    proof (cases k)
      case 0
      show ?thesis
      proof (cases r)
        case (Transactions ts)
        with 0 fl have st: "scan_settle k r s = scan_resolved (cursor s, b) ts (s\<lparr>inflight := []\<rparr>)"
          by (simp add: scan_settle_only)
        have "scanHeight (scan_settle k r s) = Some (cursor s + b)"
          unfolding st by (simp add: scan_resolved_effects)
        moreover have "inflight (scan_settle k r s) = []"
          unfolding st by (simp add: scan_settlement_inflight)
        ultimately show ?thesis using b
          by (simp add: scan_inv_def cursor_def [of "scan_settle k r s"])
      next
        case (ScanError err)
        with 0 fl have st: "scan_settle k r s = scan_rejected (cursor s, b) err (s\<lparr>inflight := []\<rparr>)"
          by (simp add: scan_settle_only)
        have "scanHeight (scan_settle k r s) = scanHeight s"
          unfolding st by (simp add: scan_rejected_effects)
        moreover have "inflight (scan_settle k r s) = []"
          unfolding st by (simp add: scan_settlement_inflight)
        ultimately show ?thesis
          by (simp add: scan_inv_def cursor_def)
      qed
    next
      case (Suc n)
      with fl assms show ?thesis by (simp add: scan_settle_def)
    qed
  qed
  then show "scan_inv (scan_settle k r s)" and "cursor s \<le> cursor (scan_settle k r s)"
    by simp_all
qed

lemma scan_inv_step:
  assumes "scan_inv s" and "case i of ScanTick \<Rightarrow> inflight s = [] | _ \<Rightarrow> True"
  shows "scan_inv (step h s i)" and "cursor s \<le> cursor (step h s i)"
proof -
  have "scan_inv (step h s i) \<and> cursor s \<le> cursor (step h s i)"
  proof (cases "i = ScanTick")
    case True
    with assms have "inflight s = []" by simp
    from scan_inv_tick [OF this] True assms(1) show ?thesis
      by (simp add: step_def)
  next
    case tick: False
    show ?thesis
    proof (cases "\<exists>k r. i = ScanSettle k r")
      case True
      then obtain k r where "i = ScanSettle k r" by blast
      with scan_inv_settle [OF assms(1), of k r] assms(1) show ?thesis
        by (simp add: step_def)
    next
      case False
      with tick step_elsewhere [of i h s] assms(1) show ?thesis
        by (simp add: scan_inv_def cursor_def)
    qed
  qed
  then show "scan_inv (step h s i)" and "cursor s \<le> cursor (step h s i)"
    by simp_all
qed

lemma sequential_run:
  assumes "scan_inv s" and "sequential h s ins"
  shows "scan_inv (run h s ins)" and "cursor s \<le> cursor (run h s ins)"
proof -
  from assms have "scan_inv (run h s ins) \<and> cursor s \<le> cursor (run h s ins)"
  proof (induction ins arbitrary: s)
    case Nil
    then show ?case by (simp add: run_def)
  next
    case (Cons i ins)
    from Cons.prems have ok: "case i of ScanTick \<Rightarrow> inflight s = [] | _ \<Rightarrow> True"
      and rest: "sequential h (step h s i) ins"
      by simp_all
    note one = scan_inv_step [OF Cons.prems(1) ok, of h]
    from Cons.IH [OF one(1) rest] one(2) show ?case
      by (simp add: run_def)
  qed
  then show "scan_inv (run h s ins)" and "cursor s \<le> cursor (run h s ins)"
    by simp_all
qed

lemma sequential_append:
  "sequential h s (ins @ later) = (sequential h s ins \<and> sequential h (run h s ins) later)"
  by (induction ins arbitrary: s) (simp_all add: run_def)

lemma run_append: "run h s (ins @ later) = run h (run h s ins) later"
  by (simp add: run_def)

lemma run_elsewhere:
  assumes "\<forall>i \<in> set mid. \<not> is_scan i"
  shows "scanHeight (run h s mid) = scanHeight s \<and> inflight (run h s mid) = inflight s"
  using assms
proof (induction mid arbitrary: s)
  case Nil
  show ?case by (simp add: run_def)
next
  case (Cons i mid)
  from Cons.prems have "\<not> is_scan i" by simp
  then have "i \<noteq> ScanTick" and "\<And>k r. i \<noteq> ScanSettle k r"
    by auto
  from step_elsewhere [OF this, of h s] Cons.IH [of "step h s i"] Cons.prems
  show ?case by (simp add: run_def)
qed


lemma scan_interval_trace:
  assumes "snd (scan_tick s) = Some (first, batch)"
  shows "trace (scan_interval s) = trace (fst (scan_tick s))"
  using assms by (simp add: scan_interval_Some)

lemma scanning_fields:
  "synced scanning" "knownBlockCount scanning = 5001" "scanHeight scanning = None"
  "scanIntervalPtr scanning" "inflight scanning = []" "\<not> halted scanning"
  "scanInterval scanning = 1" "timeout scanning = 5000"
  by (simp_all add: scanning_def impatient_def poll_resolved_def triggerUp_def Let_def
        status_5001_def emit_def out_def ctor_defs)

lemma scanIntervalPtr_keep [simp]:
  "scanIntervalPtr s \<Longrightarrow> scanIntervalPtr (emit name args s)"
  "scanIntervalPtr (out es s) = scanIntervalPtr s"
  by (simp_all add: emit_def out_def Let_def)

text \<open>
  C5. In every run in which each scan request settles before the next tick of the scan
  interval, the scan cursor never decreases, between any two moments of the run. A tick
  that finds nothing in flight issues a request for a range \<open>(first, batch)\<close> that
  starts at the cursor and is not empty. When that request succeeds, \<open>first + batch\<close> is
  stored, and the store is written after every \<open>transaction\<close> signal of the batch has
  been emitted, in the order of the reply. When it fails, \<open>error\<close> is emitted, nothing is
  written, the stored height stays as it was, and the next tick asks for the same range
  again. No input other than a tick or a settlement of the scan loop changes the stored
  height or the requests in flight, so a later tick starts from the same block as well.
\<close>

theorem C5_cursor_monotone:
  "(inflight s = [] \<and> sequential h s (ins @ later) \<longrightarrow>
      cursor (run h s ins) \<le> cursor (run h s (ins @ later)))
   \<and> (inflight s = [] \<and> snd (scan_tick s) = Some (first, batch) \<longrightarrow>
        first = cursor s \<and> 1 \<le> batch
        \<and> inflight (scan_interval s) = [(first, batch)]
        \<and> scanHeight (scan_settle 0 (Transactions ts) (scan_interval s)) = Some (first + batch)
        \<and> filter (\<lambda>e. is_emit ''transaction'' e \<or> is_put e)
             (emitted (scan_interval s) (scan_settle 0 (Transactions ts) (scan_interval s))) =
            map (\<lambda>t. Emit ''transaction'' [t]) ts @ [DbPut ''scanHeight'' (first + batch)]
        \<and> scanHeight (scan_settle 0 (ScanError err) (scan_interval s)) = scanHeight s
        \<and> filter is_put
             (emitted (scan_interval s) (scan_settle 0 (ScanError err) (scan_interval s))) = []
        \<and> length (filter (is_emit ''error'')
             (emitted (scan_interval s) (scan_settle 0 (ScanError err) (scan_interval s)))) = 1
        \<and> inflight (scan_settle 0 (ScanError err) (scan_interval s)) = []
        \<and> snd (scan_tick (scan_settle 0 (ScanError err) (scan_interval s))) =
            Some (first, batch))
   \<and> ((\<forall>i \<in> set mid. \<not> is_scan i) \<longrightarrow>
        scanHeight (run h s mid) = scanHeight s \<and> inflight (run h s mid) = inflight s)"
proof -
  have mono: "cursor (run h s ins) \<le> cursor (run h s (ins @ later))"
    if "inflight s = []" and "sequential h s (ins @ later)"
  proof -
    from that(1) have inv: "scan_inv s" by (simp add: scan_inv_def)
    from that(2) have a: "sequential h s ins" and b: "sequential h (run h s ins) later"
      by (simp_all add: sequential_append)
    from sequential_run(1) [OF inv a] have "scan_inv (run h s ins)" .
    from sequential_run(2) [OF this b] show ?thesis by (simp add: run_append)
  qed
  have steps: "first = cursor s \<and> 1 \<le> batch
        \<and> inflight (scan_interval s) = [(first, batch)]
        \<and> scanHeight (scan_settle 0 (Transactions ts) (scan_interval s)) = Some (first + batch)
        \<and> filter (\<lambda>e. is_emit ''transaction'' e \<or> is_put e)
             (emitted (scan_interval s) (scan_settle 0 (Transactions ts) (scan_interval s))) =
            map (\<lambda>t. Emit ''transaction'' [t]) ts @ [DbPut ''scanHeight'' (first + batch)]
        \<and> scanHeight (scan_settle 0 (ScanError err) (scan_interval s)) = scanHeight s
        \<and> filter is_put
             (emitted (scan_interval s) (scan_settle 0 (ScanError err) (scan_interval s))) = []
        \<and> length (filter (is_emit ''error'')
             (emitted (scan_interval s) (scan_settle 0 (ScanError err) (scan_interval s)))) = 1
        \<and> inflight (scan_settle 0 (ScanError err) (scan_interval s)) = []
        \<and> snd (scan_tick (scan_settle 0 (ScanError err) (scan_interval s))) =
            Some (first, batch)"
    if none: "inflight s = []" and req: "snd (scan_tick s) = Some (first, batch)"
  proof -
    define s1 where "s1 = scan_interval s"
    define s0 where "s0 = s1\<lparr>inflight := []\<rparr>"
    note tick = scan_tick_effects [OF req]
    have fl: "inflight s1 = [(first, batch)]"
      using none req by (simp add: s1_def scan_interval_Some)
    have fields: "scanHeight s1 = scanHeight s" "synced s1 = synced s"
      "knownBlockCount s1 = knownBlockCount s"
      using req by (simp_all add: s1_def scan_interval_Some tick)
    have tr: "trace s0 = trace s1" by (simp add: s0_def)
    have em: "emitted s1 x = emitted s0 x" for x
      by (simp add: emitted_def tr)
    have ok: "scan_settle 0 (Transactions ts) s1 = scan_resolved (first, batch) ts s0"
      and failed: "scan_settle 0 (ScanError err) s1 = scan_rejected (first, batch) err s0"
      using fl by (simp_all add: scan_settle_only s0_def)
    have same: "snd (scan_tick (scan_settle 0 (ScanError err) s1)) = snd (scan_tick s)"
      by (rule scan_tick_cong) (simp_all add: failed scan_rejected_effects s0_def fields)
    from scan_tick_Some [OF req] fl same req fields show ?thesis
      unfolding s1_def [symmetric]
      by (simp add: ok failed em scan_resolved_effects scan_rejected_effects
            scan_settlement_inflight s0_def)
  qed
  from mono steps run_elsewhere [of mid h s] show ?thesis by blast
qed

theorem C5_cursor_monotone_witness:
  "inflight scanning = []
   \<and> sequential host0 scanning
        ([ScanTick, ScanSettle 0 (Transactions [JObj []])]
         @ [ScanTick, ScanSettle 0 (ScanError ''timeout'')])
   \<and> cursor (run host0 scanning [ScanTick, ScanSettle 0 (Transactions [JObj []])])
       \<le> cursor (run host0 scanning
            ([ScanTick, ScanSettle 0 (Transactions [JObj []])]
             @ [ScanTick, ScanSettle 0 (ScanError ''timeout'')]))
   \<and> snd (scan_tick scanning) = Some (1, 1000)
   \<and> scanHeight (scan_settle 0 (Transactions [JObj []]) (scan_interval scanning)) = Some 1001
   \<and> scanHeight (scan_settle 0 (ScanError ''timeout'') (scan_interval scanning)) = None
   \<and> snd (scan_tick (scan_settle 0 (ScanError ''timeout'') (scan_interval scanning))) =
       Some (1, 1000)
   \<and> scanHeight (run host0 scanning [Connect ''a'', Elapse 1000]) = None"
proof -
  have none: "inflight scanning = []" by (simp add: scanning_fields)
  have req: "snd (scan_tick scanning) = Some (1, 1000)"
    by (simp add: scan_tick_def scanning_fields Let_def)
  have turn: "sequential host0 scanning
        ([ScanTick, ScanSettle 0 (Transactions [JObj []])]
         @ [ScanTick, ScanSettle 0 (ScanError ''timeout'')])"
    by (simp add: step_def scan_interval_def scan_tick_def scan_settle_def scan_resolved_def
          scan_rejected_def scanning_fields Let_def)
  have quiet: "\<forall>i \<in> set [Connect ''a'', Elapse 1000]. \<not> is_scan i"
    by simp
  from C5_cursor_monotone [of scanning host0 "[ScanTick, ScanSettle 0 (Transactions [JObj []])]"
      "[ScanTick, ScanSettle 0 (ScanError ''timeout'')]" 1 1000 "[JObj []]" "''timeout''"
      "[Connect ''a'', Elapse 1000]"]
    none req turn quiet
  show ?thesis by (simp add: scanning_fields)
qed

text \<open>
  Without that condition the cursor can decrease. The service with a scan interval of
  one second and an RPC timeout of five seconds is synced, knows 5001 blocks and has
  nothing stored. Two ticks each ask for the range (1, 1000) before either
  request settles; the first request resolves (cursor 1001), a third tick asks for
  (1001, 1000) and resolves (cursor 2001), and then the second request resolves and
  stores 1001.
\<close>

theorem C5_overlapping_requests_counterexample:
  "scanInterval scanning * 1000 < timeout scanning
   \<and> cursor (run host0 scanning overlapping) = 2001
   \<and> cursor (run host0 scanning (overlapping @ [ScanSettle 0 (Transactions [])])) = 1001
   \<and> cursor (run host0 scanning (overlapping @ [ScanSettle 0 (Transactions [])]))
       < cursor (run host0 scanning overlapping)"
  by (simp add: run_def overlapping_def step_def scan_interval_def scan_tick_def
        scan_settle_def scan_resolved_def cursor_def scanning_fields Let_def)

section \<open>Gateway requests\<close>

lemma request_listener_object:
  assumes "JSON_parse h raw = None \<or> (\<exists>kvs. JSON_parse h raw = Some (JObj kvs))"
  shows "\<exists>d. request_listener h sock evt raw n s =
           Inr (out [Rpc evt d] s,
                \<lparr>p_sock = sock, p_evt = evt,
                 p_nonce = (if truthy (nonce_of h raw) then nonce_of h raw else JNum n)\<rparr>)"
  using assms
  by (auto simp: request_listener_def nonce_of_def read_nonce_def write_nonce_def js_or_def
        obj_get_def Let_def)

text \<open>
  C9. A request from a connection that has authenticated once, for one of the command
  names, whose text parses to an object or does not parse at all, leaves exactly one
  request pending. Its nonce is the nonce of the text when that is truthy, and a
  generated one otherwise: when the text carries none, and also when it carries a falsy
  one such as 0. The answer goes to the same connection under the same event name and
  is \<open>{nonce, data}\<close> on success and \<open>{nonce, error}\<close> on failure with that nonce,
  whatever other request was answered before it.
\<close>

theorem C9_nonce_echo:
  assumes "count_list (registered s) sock = 1"
    and "evt \<in> set (events h)"
    and "JSON_parse h raw = None \<or> (\<exists>kvs. JSON_parse h raw = Some (JObj kvs))"
  shows "\<exists>s' p. on_request h sock evt raw fresh s = Inr (s', [p])
           \<and> p_sock p = sock \<and> p_evt p = evt
           \<and> p_nonce p = (if truthy (nonce_of h raw) then nonce_of h raw else JNum (fresh 0))
           \<and> (\<forall>st result. emitted st (request_resolved p result st) =
                 [SockEmit sock evt (JObj [(''nonce'', p_nonce p), (''data'', result)])])
           \<and> (\<forall>st err. emitted st (request_rejected p err st) =
                 [SockEmit sock evt (JObj [(''nonce'', p_nonce p), (''error'', JStr err)])])
           \<and> (\<forall>st q r result.
                 emitted st (request_resolved p result (request_resolved q r st)) =
                 emitted st (request_resolved q r st)
                 @ [SockEmit sock evt (JObj [(''nonce'', p_nonce p), (''data'', result)])])"
proof -
  from request_listener_object [OF assms(3), of sock evt "fresh 0" s]
  obtain d where l: "request_listener h sock evt raw (fresh 0) s =
           Inr (out [Rpc evt d] s,
                \<lparr>p_sock = sock, p_evt = evt,
                 p_nonce = (if truthy (nonce_of h raw) then nonce_of h raw else JNum (fresh 0))\<rparr>)"
    by blast
  have "on_request h sock evt raw fresh s =
      Inr (out [Rpc evt d] s,
           [\<lparr>p_sock = sock, p_evt = evt,
             p_nonce = (if truthy (nonce_of h raw) then nonce_of h raw else JNum (fresh 0))\<rparr>])"
    using assms(1,2) l by (simp add: on_request_def)
  then show ?thesis
    by (simp add: emitted_def request_resolved_def request_rejected_def)
qed

lemma sample_json_texts:
  "JSON_parse host0 nonce_111 = Some (JObj [(''nonce'', JNum 111)])"
  "JSON_parse host0 nonce_0 = Some (JObj [(''nonce'', JNum 0)])"
  "JSON_parse host0 ''null'' = Some JNull"
  by (simp_all add: host0_def sample_json_def nonce_111_def nonce_222_def nonce_0_def dq_def)

theorem C9_nonce_echo_witness:
  "count_list (registered clients) ''a'' = 1
   \<and> ''getStatus'' \<in> set (events host0)
   \<and> JSON_parse host0 nonce_111 = Some (JObj [(''nonce'', JNum 111)])
   \<and> (\<exists>s'. on_request host0 ''a'' ''getStatus'' nonce_111 nonce42 clients =
         Inr (s', [\<lparr>p_sock = ''a'', p_evt = ''getStatus'', p_nonce = JNum 111\<rparr>]))
   \<and> emitted clients
        (request_resolved \<lparr>p_sock = ''a'', p_evt = ''getStatus'', p_nonce = JNum 111\<rparr>
           (JStr ''first'')
           (request_resolved \<lparr>p_sock = ''a'', p_evt = ''getStatus'', p_nonce = JNum 222\<rparr>
              (JStr ''second'') clients)) =
       [SockEmit ''a'' ''getStatus'' (JObj [(''nonce'', JNum 222), (''data'', JStr ''second'')]),
        SockEmit ''a'' ''getStatus'' (JObj [(''nonce'', JNum 111), (''data'', JStr ''first'')])]"
proof -
  have once: "count_list (registered clients) ''a'' = 1"
    by (simp add: clients_registered)
  have cmd: "''getStatus'' \<in> set (events host0)"
    by (simp add: events_host0)
  have obj: "JSON_parse host0 nonce_111 = None
      \<or> (\<exists>kvs. JSON_parse host0 nonce_111 = Some (JObj kvs))"
    by (simp add: sample_json_texts)
  from C9_nonce_echo [OF once cmd obj, of nonce42]
  obtain s' p where
    r: "on_request host0 ''a'' ''getStatus'' nonce_111 nonce42 clients = Inr (s', [p])"
    and p: "p_sock p = ''a''" "p_evt p = ''getStatus''"
      "p_nonce p =
         (if truthy (nonce_of host0 nonce_111) then nonce_of host0 nonce_111
          else JNum (nonce42 0))"
    and later: "\<forall>st q r result.
      emitted st (request_resolved p result (request_resolved q r st)) =
      emitted st (request_resolved q r st)
      @ [SockEmit ''a'' ''getStatus'' (JObj [(''nonce'', p_nonce p), (''data'', result)])]"
    by blast
  from p have eq: "p = \<lparr>p_sock = ''a'', p_evt = ''getStatus'', p_nonce = JNum 111\<rparr>"
    by (cases p) (simp add: nonce_of_def sample_json_texts obj_get_def)
  have other: "emitted clients
      (request_resolved \<lparr>p_sock = ''a'', p_evt = ''getStatus'', p_nonce = JNum 222\<rparr>
         (JStr ''second'') clients) =
      [SockEmit ''a'' ''getStatus'' (JObj [(''nonce'', JNum 222), (''data'', JStr ''second'')])]"
    by (simp add: emitted_def request_resolved_def)
  from later eq other have "emitted clients
        (request_resolved \<lparr>p_sock = ''a'', p_evt = ''getStatus'', p_nonce = JNum 111\<rparr>
           (JStr ''first'')
           (request_resolved \<lparr>p_sock = ''a'', p_evt = ''getStatus'', p_nonce = JNum 222\<rparr>
              (JStr ''second'') clients)) =
       [SockEmit ''a'' ''getStatus'' (JObj [(''nonce'', JNum 222), (''data'', JStr ''second'')]),
        SockEmit ''a'' ''getStatus'' (JObj [(''nonce'', JNum 111), (''data'', JStr ''first'')])]"
    by simp
  with r eq once cmd show ?thesis
    by (auto simp: sample_json_texts)
qed

text \<open>
  A request of the authenticated connection \<open>a\<close> that carries the nonce 0 is answered
  with the generated nonce 42, not with 0.
\<close>

theorem C9_zero_nonce_counterexample:
  "nonce_of host0 nonce_0 = JNum 0
   \<and> nonces_of (on_request host0 ''a'' ''getStatus'' nonce_0 nonce42 clients) = [JNum 42]"
  by (simp add: nonce_of_def nonces_of_def sample_json_texts obj_get_def on_request_def
        events_host0 clients_registered request_listener_def read_nonce_def write_nonce_def
        js_or_def nonce42_def Let_def)

text \<open>A request whose text is \<open>null\<close> makes the listener throw: it is not answered.\<close>

lemma request_null_throws:
  "on_request host0 ''a'' ''getStatus'' ''null'' nonce42 clients = Inl TypeError"
  by (simp add: on_request_def events_host0 clients_registered request_listener_def
        sample_json_texts read_nonce_def Let_def)

section \<open>Construction\<close>

text \<open>
  C10. Whatever the options are, the constructed service has \<open>enableWebSocket\<close> true and
  the gateway set up; in particular when the option \<open>enableWebSocket\<close> is given as false.
\<close>

theorem C10_websocket_always_enabled:
  "enableWebSocket (ZumService h stored opts)
   \<and> webSocket (ZumService h stored opts) \<noteq> None
   \<and> enableWebSocket (ZumService h stored (opts\<lparr>o_enableWebSocket := Some False\<rparr>))
   \<and> webSocket (ZumService h stored (opts\<lparr>o_enableWebSocket := Some False\<rparr>)) \<noteq> None"
  by (simp add: ZumService_def setupWebSocket_def or_bool_def split: option.splits)

end
